theory Spec2Isabelle
  imports Main
begin

section \<open>JavaScript values\<close>

text \<open>
  The schema controller works on JSON-shaped JavaScript values. A value is \<open>undefined\<close>,
  \<open>null\<close>, a boolean, a number, a string, an array or a plain object. An object is the
  list of its own enumerable properties in enumeration order (the order of \<open>for ... in\<close> and
  of \<open>Object.keys\<close>); its keys are taken to be distinct. Numbers are integers here: the
  code only looks at their type and their truthiness.

  Two conventions of the model:
  \<^item> properties inherited from \<open>Object.prototype\<close> and \<open>Array.prototype\<close> are not modelled, so
    dynamic keys are taken not to name one of them;
  \<^item> keys that look like array indices are enumerated by JavaScript before the other keys;
    objects are taken to have no such keys, so that insertion order is enumeration order.
\<close>

datatype jsval =
    JUndefined
  | JNull
  | JBool bool
  | JNum int
  | JStr string
  | JArr "jsval list"
  | JObj "(string \<times> jsval) list"

type_synonym jsobj = "(string \<times> jsval) list"

fun truthy :: "jsval \<Rightarrow> bool" where
  "truthy JUndefined = False"
| "truthy JNull = False"
| "truthy (JBool b) = b"
| "truthy (JNum n) = (n \<noteq> 0)"
| "truthy (JStr s) = (s \<noteq> [])"
| "truthy (JArr xs) = True"
| "truthy (JObj kvs) = True"

text \<open>\<open>v == null\<close>: true for \<open>null\<close> and \<open>undefined\<close> only.\<close>

fun nullish :: "jsval \<Rightarrow> bool" where
  "nullish JUndefined = True"
| "nullish JNull = True"
| "nullish v = False"

fun isArray :: "jsval \<Rightarrow> bool" where
  "isArray (JArr xs) = True"
| "isArray v = False"

text \<open>\<open>typeof v === 'string'\<close> and \<open>typeof v === 'object'\<close>.\<close>

fun isString :: "jsval \<Rightarrow> bool" where
  "isString (JStr s) = True"
| "isString v = False"

fun typeofObject :: "jsval \<Rightarrow> bool" where
  "typeofObject JNull = True"
| "typeofObject (JArr xs) = True"
| "typeofObject (JObj kvs) = True"
| "typeofObject v = False"

text \<open>
  Strict equality \<open>===\<close>. Primitives are compared by value. Arrays and objects are compared
  by reference in JavaScript; the operands compared by this program come from different
  sources (a stored schema and a request), so two of them are never the same object.
\<close>

fun strict_eq :: "jsval \<Rightarrow> jsval \<Rightarrow> bool" where
  "strict_eq (JArr xs) b = False"
| "strict_eq (JObj kvs) b = False"
| "strict_eq a b = (a = b)"

subsection \<open>Decimal strings, property keys\<close>

definition digit_char :: "nat \<Rightarrow> char" where
  "digit_char d = ''0123456789'' ! d"

fun show_nat :: "nat \<Rightarrow> string" where
  "show_nat n = (if n < 10 then [digit_char n] else show_nat (n div 10) @ [digit_char (n mod 10)])"

declare show_nat.simps [simp del]

definition show_int :: "int \<Rightarrow> string" where
  "show_int i = (if i < 0 then CHR ''-'' # show_nat (nat (- i)) else show_nat (nat i))"

fun join_comma :: "string list \<Rightarrow> string" where
  "join_comma [] = []"
| "join_comma [s] = s"
| "join_comma (s # t # ss) = s @ CHR '','' # join_comma (t # ss)"

text \<open>
  \<open>String(v)\<close>, also the conversion of a value used as a property key (a number is
  written in decimal, as JavaScript writes the integers below \<open>10^21\<close>).
\<close>

fun js_toString :: "jsval \<Rightarrow> string" where
  "js_toString JUndefined = ''undefined''"
| "js_toString JNull = ''null''"
| "js_toString (JBool b) = (if b then ''true'' else ''false'')"
| "js_toString (JNum n) = show_int n"
| "js_toString (JStr s) = s"
| "js_toString (JArr xs) = join_comma (map (\<lambda>x. if nullish x then [] else js_toString x) xs)"
| "js_toString (JObj kvs) = ''[object Object]''"

text \<open>The own indexed properties of an array: \<open>'0'\<close>, \<open>'1'\<close>, ...\<close>

definition index_props :: "jsval list \<Rightarrow> jsobj" where
  "index_props xs = zip (map show_nat [0..<length xs]) xs"

text \<open>
  \<open>v[k]\<close> for a value that is neither \<open>null\<close> nor \<open>undefined\<close> (on those two JavaScript
  raises a TypeError: every caller below tests \<open>nullish\<close> first where the source can reach
  one).
\<close>

fun getprop :: "jsval \<Rightarrow> string \<Rightarrow> jsval" where
  "getprop (JObj kvs) k = (case map_of kvs k of Some v \<Rightarrow> v | None \<Rightarrow> JUndefined)"
| "getprop (JArr xs) k =
     (case map_of (index_props xs) k of
        Some v \<Rightarrow> v
      | None \<Rightarrow> if k = ''length'' then JNum (int (length xs)) else JUndefined)"
| "getprop (JStr s) k =
     (case map_of (index_props (map (\<lambda>c. JStr [c]) s)) k of
        Some v \<Rightarrow> v
      | None \<Rightarrow> if k = ''length'' then JNum (int (length s)) else JUndefined)"
| "getprop v k = JUndefined"

text \<open>\<open>Object.keys(v)\<close> for a value that is neither \<open>null\<close> nor \<open>undefined\<close>.\<close>

fun object_keys :: "jsval \<Rightarrow> string list" where
  "object_keys (JObj kvs) = map fst kvs"
| "object_keys (JArr xs) = map fst (index_props xs)"
| "object_keys (JStr s) = map fst (index_props (map (\<lambda>c. JStr [c]) s))"
| "object_keys v = []"

text \<open>
  Loose equality \<open>v == 'lit'\<close> with a string literal that is not numeric and not empty (the
  only ones this program compares with): a string equals it by value, an array or object
  through its string conversion, nothing else does.
\<close>

fun loose_eq_str :: "jsval \<Rightarrow> string \<Rightarrow> bool" where
  "loose_eq_str (JStr s) lit = (s = lit)"
| "loose_eq_str (JArr xs) lit = (js_toString (JArr xs) = lit)"
| "loose_eq_str (JObj kvs) lit = (js_toString (JObj kvs) = lit)"
| "loose_eq_str v lit = False"

subsection \<open>Objects as property lists\<close>

text \<open>\<open>o[k] = v\<close>: an existing key keeps its place, a new key goes last.\<close>

definition set_prop :: "string \<Rightarrow> jsval \<Rightarrow> jsobj \<Rightarrow> jsobj" where
  "set_prop k v kvs =
     (if k \<in> set (map fst kvs)
      then map (\<lambda>(k', v'). if k' = k then (k', v) else (k', v')) kvs
      else kvs @ [(k, v)])"

text \<open>\<open>delete o[k]\<close>.\<close>

definition delete_prop :: "string \<Rightarrow> jsobj \<Rightarrow> jsobj" where
  "delete_prop k kvs = filter (\<lambda>(k', v'). k' \<noteq> k) kvs"

text \<open>\<open>{...a, ...b}\<close>: the properties of \<open>b\<close> are written over those of \<open>a\<close>, in order.\<close>

definition spread :: "jsobj \<Rightarrow> jsobj \<Rightarrow> jsobj" where
  "spread a b = fold (\<lambda>(k, v) acc. set_prop k v acc) b a"

section \<open>Regular expressions\<close>

text \<open>
  The regular expressions of the source are sequences of atoms: a literal character, one
  character of a class, and a class under \<open>*\<close> or \<open>+\<close>. A class is a list of character
  ranges, or \<open>.\<close> (any character but a line terminator). \<open>rmatch p s\<close> lists what is left
  of \<open>s\<close> after each way of matching \<open>p\<close> against a prefix of \<open>s\<close>.
\<close>

datatype cclass = Ranges "(char \<times> char) list" | Dot

fun in_class :: "cclass \<Rightarrow> char \<Rightarrow> bool" where
  "in_class (Ranges rs) c =
     list_ex (\<lambda>(lo, hi). (of_char lo :: nat) \<le> of_char c \<and> (of_char c :: nat) \<le> of_char hi) rs"
| "in_class Dot c = (c \<noteq> CHR 0x0A \<and> c \<noteq> CHR 0x0D)"

datatype atom = Lit char | One cclass | Star cclass | Plus cclass

fun rmatch :: "atom list \<Rightarrow> string \<Rightarrow> string list" where
  "rmatch [] s = [s]"
| "rmatch (Lit c # p) [] = []"
| "rmatch (Lit c # p) (x # xs) = (if x = c then rmatch p xs else [])"
| "rmatch (One cl # p) [] = []"
| "rmatch (One cl # p) (x # xs) = (if in_class cl x then rmatch p xs else [])"
| "rmatch (Star cl # p) [] = rmatch p []"
| "rmatch (Star cl # p) (x # xs) =
     rmatch p (x # xs) @ (if in_class cl x then rmatch (Star cl # p) xs else [])"
| "rmatch (Plus cl # p) [] = []"
| "rmatch (Plus cl # p) (x # xs) = (if in_class cl x then rmatch (Star cl # p) xs else [])"

text \<open>\<open>/^p/.test(s)\<close> and \<open>/^p$/.test(s)\<close> (no flags: \<open>$\<close> is the end of the input).\<close>

definition test_prefix :: "atom list \<Rightarrow> string \<Rightarrow> bool" where
  "test_prefix p s = (rmatch p s \<noteq> [])"

definition test_whole :: "atom list \<Rightarrow> string \<Rightarrow> bool" where
  "test_whole p s = ([] \<in> set (rmatch p s))"

definition alpha :: cclass where
  "alpha = Ranges [(CHR ''A'', CHR ''Z''), (CHR ''a'', CHR ''z'')]"

definition alnum :: cclass where
  "alnum = Ranges [(CHR ''a'', CHR ''z''), (CHR ''A'', CHR ''Z''), (CHR ''0'', CHR ''9'')]"

definition word :: cclass where
  "word = Ranges [(CHR ''A'', CHR ''Z''), (CHR ''a'', CHR ''z''), (CHR ''0'', CHR ''9''),
                  (CHR ''_'', CHR ''_'')]"

section \<open>Name validation\<close>

definition systemClasses :: "string list" where
  "systemClasses = [''_User'', ''_Installation'', ''_Role'', ''_Session'', ''_Product'', ''_PushStatus'']"

definition volatileClasses :: "string list" where
  "volatileClasses = [''_PushStatus'', ''_Hooks'', ''_GlobalConfig'']"

text \<open>\<open>/^_Join:[A-Za-z0-9_]+:[A-Za-z0-9_]+/\<close>\<close>

definition joinClassRegex :: "atom list" where
  "joinClassRegex = map Lit ''_Join:'' @ [Plus word, Lit CHR '':'', Plus word]"

text \<open>\<open>/^[A-Za-z][A-Za-z0-9_]*$/\<close>\<close>

definition classAndFieldRegex :: "atom list" where
  "classAndFieldRegex = [One alpha, Star word]"

definition fieldNameIsValid :: "string \<Rightarrow> bool" where
  "fieldNameIsValid fieldName = test_whole classAndFieldRegex fieldName"

definition classNameIsValid :: "string \<Rightarrow> bool" where
  "classNameIsValid cname =
     (cname \<in> set systemClasses \<or> test_prefix joinClassRegex cname \<or> fieldNameIsValid cname)"

section \<open>Errors\<close>

text \<open>The error codes of the Parse SDK that the source names (\<open>Parse.Error.*\<close>).\<close>

definition INVALID_CLASS_NAME :: int where "INVALID_CLASS_NAME = 103"
definition INVALID_KEY_NAME :: int where "INVALID_KEY_NAME = 105"
definition INVALID_JSON :: int where "INVALID_JSON = 107"
definition INCORRECT_TYPE :: int where "INCORRECT_TYPE = 111"
definition OPERATION_FORBIDDEN :: int where "OPERATION_FORBIDDEN = 119"
definition DUPLICATE_VALUE :: int where "DUPLICATE_VALUE = 137"

text \<open>
  One constructor for each place of the source that raises, rejects with or returns an
  error, carrying what its message interpolates; \<open>External\<close> is a value a collaborator
  (storage adapter, schema cache) rejected with. \<open>BadObj\<close> and \<open>UnexpectedOp\<close> are thrown
  strings, \<open>TypeError\<close> is the runtime's error on a property of \<open>null\<close> or \<open>undefined\<close>.
\<close>

datatype error =
    InvalidPermissionKey string
  | InvalidCLPOperation string
  | InvalidCLPValue jsval string
  | InvalidCLPPointerColumn jsval string
  | InvalidCLPGrant jsval string string
  | NeedsClassName jsval
  | InvalidJson
  | InvalidClassName string
  | InvalidFieldType string
  | ClassAlreadyExists string
  | ClassDoesNotExist string
  | FieldExistsCannotUpdate string
  | FieldDoesNotExist string
  | FailedToAdd string
  | ClassNameDoesNotRevalidate
  | InvalidFieldName string
  | InvalidFieldNameDot string
  | FieldCannotBeAdded string
  | FieldCannotBeChanged string
  | SchemaGeoPoints string string
  | SchemaMismatch string string jsval jsval
  | CouldNotAddField string
  | TooManyGeoPoints
  | RequiredColumnMissing string
  | OperationForbidden string string
  | NotAValidType jsval
  | BadObj jsval
  | UnexpectedOp jsval
  | TypeError
  | External jsval

text \<open>\<open>error.code\<close>\<close>

fun err_code :: "error \<Rightarrow> jsval" where
  "err_code (InvalidPermissionKey k) = JNum INVALID_JSON"
| "err_code (InvalidCLPOperation operation) = JNum INVALID_JSON"
| "err_code (InvalidCLPValue v operation) = JNum INVALID_JSON"
| "err_code (InvalidCLPPointerColumn k operation) = JNum INVALID_JSON"
| "err_code (InvalidCLPGrant perm operation k) = JNum INVALID_JSON"
| "err_code (NeedsClassName t) = JNum 135"
| "err_code InvalidJson = JNum INVALID_JSON"
| "err_code (InvalidClassName c) = JNum INVALID_CLASS_NAME"
| "err_code (InvalidFieldType t) = JNum INCORRECT_TYPE"
| "err_code (ClassAlreadyExists c) = JNum INVALID_CLASS_NAME"
| "err_code (ClassDoesNotExist c) = JNum INVALID_CLASS_NAME"
| "err_code (FieldExistsCannotUpdate f) = JNum 255"
| "err_code (FieldDoesNotExist f) = JNum 255"
| "err_code (FailedToAdd c) = JNum INVALID_JSON"
| "err_code ClassNameDoesNotRevalidate = JNum INVALID_JSON"
| "err_code (InvalidFieldName f) = JNum INVALID_KEY_NAME"
| "err_code (InvalidFieldNameDot f) = JNum INVALID_KEY_NAME"
| "err_code (FieldCannotBeAdded f) = JNum 136"
| "err_code (FieldCannotBeChanged f) = JNum 136"
| "err_code (SchemaGeoPoints g1 g0) = JNum INCORRECT_TYPE"
| "err_code (SchemaMismatch c f expected got) = JNum INCORRECT_TYPE"
| "err_code (CouldNotAddField f) = JNum INVALID_JSON"
| "err_code TooManyGeoPoints = JNum INCORRECT_TYPE"
| "err_code (RequiredColumnMissing c) = JNum INCORRECT_TYPE"
| "err_code (OperationForbidden operation c) = JNum OPERATION_FORBIDDEN"
| "err_code (NotAValidType t) = JNum INCORRECT_TYPE"
| "err_code (BadObj v) = JUndefined"
| "err_code (UnexpectedOp v) = JUndefined"
| "err_code TypeError = JUndefined"
| "err_code (External v) = (if nullish v then JUndefined else getprop v ''code'')"

text \<open>The messages that interpolate strings only.\<close>

fun err_message :: "error \<Rightarrow> string option" where
  "err_message (FieldCannotBeAdded f) = Some (''field '' @ f @ '' cannot be added'')"
| "err_message (FieldCannotBeChanged f) = Some (''field '' @ f @ '' cannot be changed'')"
| "err_message (InvalidFieldName f) = Some (''invalid field name: '' @ f)"
| "err_message (InvalidFieldNameDot f) = Some (''Invalid field name: '' @ f @ ''.'')"
| "err_message TooManyGeoPoints = Some ''there can only be one geopoint field in a class''"
| "err_message (SchemaGeoPoints g1 g0) =
     Some (''currently, only one GeoPoint field may exist in an object. Adding '' @ g1 @ '' when ''
           @ g0 @ '' already exists.'')"
| "err_message (RequiredColumnMissing c) = Some (c @ '' is required.'')"
| "err_message (OperationForbidden operation c) =
     Some (''Permission denied for action '' @ operation @ '' on class '' @ c @ ''.'')"
| "err_message (InvalidClassName c) =
     Some (''Invalid classname: '' @ c @
       '', classnames can only have alphanumeric characters and _, and must start with an alpha character '')"
| "err_message e = None"

section \<open>Default columns\<close>

definition ty :: "string \<Rightarrow> jsval" where
  "ty t = JObj [(''type'', JStr t)]"

definition ty_to :: "string \<Rightarrow> string \<Rightarrow> jsval" where
  "ty_to t c = JObj [(''type'', JStr t), (''targetClass'', JStr c)]"

definition defaultColumns_Default :: jsobj where
  "defaultColumns_Default =
     [(''objectId'', ty ''String''), (''createdAt'', ty ''Date''), (''updatedAt'', ty ''Date''),
      (''ACL'', ty ''ACL'')]"

definition defaultColumns_User :: jsobj where
  "defaultColumns_User =
     [(''username'', ty ''String''), (''password'', ty ''String''), (''email'', ty ''String''),
      (''emailVerified'', ty ''Boolean'')]"

definition defaultColumns_Installation :: jsobj where
  "defaultColumns_Installation =
     [(''installationId'', ty ''String''), (''deviceToken'', ty ''String''),
      (''channels'', ty ''Array''), (''deviceType'', ty ''String''), (''pushType'', ty ''String''),
      (''GCMSenderId'', ty ''String''), (''timeZone'', ty ''String''),
      (''localeIdentifier'', ty ''String''), (''badge'', ty ''Number''),
      (''appVersion'', ty ''String''), (''appName'', ty ''String''),
      (''appIdentifier'', ty ''String''), (''parseVersion'', ty ''String'')]"

definition defaultColumns_Role :: jsobj where
  "defaultColumns_Role =
     [(''name'', ty ''String''), (''users'', ty_to ''Relation'' ''_User''),
      (''roles'', ty_to ''Relation'' ''_Role'')]"

definition defaultColumns_Session :: jsobj where
  "defaultColumns_Session =
     [(''restricted'', ty ''Boolean''), (''user'', ty_to ''Pointer'' ''_User''),
      (''installationId'', ty ''String''), (''sessionToken'', ty ''String''),
      (''expiresAt'', ty ''Date''), (''createdWith'', ty ''Object'')]"

definition defaultColumns_Product :: jsobj where
  "defaultColumns_Product =
     [(''productIdentifier'', ty ''String''), (''download'', ty ''File''),
      (''downloadName'', ty ''String''), (''icon'', ty ''File''), (''order'', ty ''Number''),
      (''title'', ty ''String''), (''subtitle'', ty ''String'')]"

definition defaultColumns_PushStatus :: jsobj where
  "defaultColumns_PushStatus =
     [(''pushTime'', ty ''String''), (''source'', ty ''String''), (''query'', ty ''String''),
      (''payload'', ty ''String''), (''title'', ty ''String''), (''expiry'', ty ''Number''),
      (''status'', ty ''String''), (''numSent'', ty ''Number''), (''numFailed'', ty ''Number''),
      (''pushHash'', ty ''String''), (''errorMessage'', ty ''Object''),
      (''sentPerType'', ty ''Object''), (''failedPerType'', ty ''Object'')]"

definition defaultColumns :: "(string \<times> jsobj) list" where
  "defaultColumns =
     [(''_Default'', defaultColumns_Default), (''_User'', defaultColumns_User),
      (''_Installation'', defaultColumns_Installation), (''_Role'', defaultColumns_Role),
      (''_Session'', defaultColumns_Session), (''_Product'', defaultColumns_Product),
      (''_PushStatus'', defaultColumns_PushStatus)]"

text \<open>\<open>defaultColumns[className] || {}\<close>\<close>

definition classColumns :: "string \<Rightarrow> jsobj" where
  "classColumns cname = (case map_of defaultColumns cname of Some cols \<Rightarrow> cols | None \<Rightarrow> [])"

definition requiredColumns :: "(string \<times> string list) list" where
  "requiredColumns =
     [(''_Product'', [''productIdentifier'', ''icon'', ''order'', ''title'', ''subtitle'']),
      (''_Role'', [''name'', ''ACL''])]"

text \<open>Checks that a field name does not clobber one of the default fields of the class.\<close>

definition fieldNameIsValidForClass :: "string \<Rightarrow> string \<Rightarrow> bool" where
  "fieldNameIsValidForClass fieldName cname =
     (if \<not> fieldNameIsValid fieldName then False
      else if truthy (getprop (JObj defaultColumns_Default) fieldName) then False
      else if map_of defaultColumns cname \<noteq> None
              \<and> truthy (getprop (JObj (classColumns cname)) fieldName) then False
      else True)"

section \<open>Field type declarations\<close>

definition validNonRelationOrPointerTypes :: "string list" where
  "validNonRelationOrPointerTypes =
     [''Number'', ''String'', ''Boolean'', ''Date'', ''Object'', ''Array'', ''GeoPoint'', ''File'']"

text \<open>
  \<open>fieldTypeIsInvalid({ type, targetClass })\<close> on the two destructured properties: the error
  it returns, or \<open>None\<close> for \<open>undefined\<close>.
\<close>

definition fieldTypeIsInvalid :: "jsval \<Rightarrow> jsval \<Rightarrow> error option" where
  "fieldTypeIsInvalid type targetClass =
     (if type = JStr ''Pointer'' \<or> type = JStr ''Relation'' then
        (if \<not> truthy targetClass then Some (NeedsClassName type)
         else if \<not> isString targetClass then Some InvalidJson
         else if \<not> classNameIsValid (js_toString targetClass) then
           Some (InvalidClassName (js_toString targetClass))
         else None)
      else if \<not> isString type then Some InvalidJson
      else if js_toString type \<notin> set validNonRelationOrPointerTypes then
        Some (InvalidFieldType (js_toString type))
      else None)"

text \<open>
  The call on a declaration: destructuring \<open>null\<close> or \<open>undefined\<close> raises a TypeError
  (\<open>Inl\<close>); a missing property is \<open>undefined\<close>.
\<close>

definition fieldTypeIsInvalid_decl :: "jsval \<Rightarrow> error + error option" where
  "fieldTypeIsInvalid_decl decl =
     (if nullish decl then Inl TypeError
      else Inr (fieldTypeIsInvalid (getprop decl ''type'') (getprop decl ''targetClass'')))"

section \<open>Schemas and their two representations\<close>

record schema =
  className :: string
  schema_fields :: jsobj
  classLevelPermissions :: jsval

definition injectDefaultSchema :: "schema \<Rightarrow> schema" where
  "injectDefaultSchema sch =
     \<lparr> className = className sch,
       schema_fields = spread (spread defaultColumns_Default (classColumns (className sch))) (schema_fields sch),
       classLevelPermissions = classLevelPermissions sch \<rparr>"

definition convertSchemaToAdapterSchema :: "schema \<Rightarrow> schema" where
  "convertSchemaToAdapterSchema sch0 =
     (let sch = injectDefaultSchema sch0;
          f1 = delete_prop ''ACL'' (schema_fields sch);
          f2 = set_prop ''_rperm'' (ty ''Array'') f1;
          f3 = set_prop ''_wperm'' (ty ''Array'') f2;
          f4 = (if className sch = ''_User''
                then set_prop ''_hashed_password'' (ty ''String'') (delete_prop ''password'' f3)
                else f3)
      in sch\<lparr>schema_fields := f4\<rparr>)"

text \<open>
  The source copies the schema shallowly and changes its \<open>fields\<close> object in place; the
  model returns the changed schema.
\<close>

definition convertAdapterSchemaToParseSchema :: "schema \<Rightarrow> schema" where
  "convertAdapterSchemaToParseSchema sch =
     (let f1 = delete_prop ''_rperm'' (schema_fields sch);
          f2 = delete_prop ''_wperm'' f1;
          f3 = set_prop ''ACL'' (ty ''ACL'') f2;
          f4 = (if className sch = ''_User''
                then set_prop ''password'' (ty ''String'')
                       (delete_prop ''_hashed_password'' (delete_prop ''authData'' f3))
                else f3)
      in sch\<lparr>schema_fields := f4\<rparr>)"

text \<open>A schema as the plain object \<open>{className, fields, classLevelPermissions}\<close>.\<close>

definition schema_object :: "schema \<Rightarrow> jsval" where
  "schema_object sch =
     JObj [(''className'', JStr (className sch)), (''fields'', JObj (schema_fields sch)),
           (''classLevelPermissions'', classLevelPermissions sch)]"

text \<open>
  \<open>dbTypeMatchesObjectType(dbType, objectType)\<close>; \<open>Inl TypeError\<close> when \<open>dbType\<close> is
  \<open>undefined\<close> or \<open>null\<close>. Its callers pass a truthy \<open>objectType\<close>.
\<close>

definition dbTypeMatchesObjectType :: "jsval \<Rightarrow> jsval \<Rightarrow> error + bool" where
  "dbTypeMatchesObjectType dbType objectType =
     (if nullish dbType then Inl TypeError
      else if \<not> strict_eq (getprop dbType ''type'') (getprop objectType ''type'') then Inr False
      else if \<not> strict_eq (getprop dbType ''targetClass'') (getprop objectType ''targetClass'')
        then Inr False
      else if strict_eq dbType (getprop objectType ''type'') then Inr True
      else if strict_eq (getprop dbType ''type'') (getprop objectType ''type'') then Inr True
      else Inr False)"

section \<open>Classifying a value\<close>

text \<open>
  The \<open>switch (obj.__type)\<close> of \<open>getObjectType\<close>: no case ends in \<open>break\<close>, so a case whose
  test fails runs the next case's test.
\<close>

definition tagDefault :: "jsval \<Rightarrow> error + jsval" where
  "tagDefault obj = Inl (NotAValidType (getprop obj ''__type''))"

definition tagBytes :: "jsval \<Rightarrow> error + jsval" where
  "tagBytes obj = (if truthy (getprop obj ''base64'') then Inr JUndefined else tagDefault obj)"

definition tagGeoPoint :: "jsval \<Rightarrow> error + jsval" where
  "tagGeoPoint obj =
     (if \<not> nullish (getprop obj ''latitude'') \<and> \<not> nullish (getprop obj ''longitude'')
      then Inr (JStr ''GeoPoint'') else tagBytes obj)"

definition tagDate :: "jsval \<Rightarrow> error + jsval" where
  "tagDate obj = (if truthy (getprop obj ''iso'') then Inr (JStr ''Date'') else tagGeoPoint obj)"

definition tagFile :: "jsval \<Rightarrow> error + jsval" where
  "tagFile obj = (if truthy (getprop obj ''name'') then Inr (JStr ''File'') else tagDate obj)"

definition tagPointer :: "jsval \<Rightarrow> error + jsval" where
  "tagPointer obj =
     (if truthy (getprop obj ''className'')
      then Inr (JObj [(''type'', JStr ''Pointer''), (''targetClass'', getprop obj ''className'')])
      else tagFile obj)"

definition typeTagSwitch :: "jsval \<Rightarrow> error + jsval" where
  "typeTagSwitch obj =
     (let t = getprop obj ''__type'' in
      if t = JStr ''Pointer'' then tagPointer obj
      else if t = JStr ''File'' then tagFile obj
      else if t = JStr ''Date'' then tagDate obj
      else if t = JStr ''GeoPoint'' then tagGeoPoint obj
      else if t = JStr ''Bytes'' then tagBytes obj
      else tagDefault obj)"

lemma size_map_of:
  "map_of kvs k = Some v \<Longrightarrow> size v < Suc (size_list (size_prod (\<lambda>x. 0) size) kvs)"
  by (induction kvs) (auto split: if_splits)

lemma size_member: "v \<in> set xs \<Longrightarrow> size v < Suc (size_list size xs)"
  by (induction xs) auto

lemma size_index_props: "map_of (index_props xs) k = Some v \<Longrightarrow> size v < Suc (size_list size xs)"
  by (auto simp: index_props_def dest!: map_of_SomeD set_zip_rightD intro: size_member)

lemma size_getprop: "size (getprop v k) \<le> size v"
proof (cases v)
  case (JObj kvs)
  then show ?thesis
    using size_map_of [of kvs k] by (auto split: option.splits)
next
  case (JArr xs)
  then show ?thesis
    using size_index_props [of xs k] by (auto split: option.splits)
next
  case (JStr s)
  then show ?thesis
    by (auto split: option.splits simp: index_props_def dest!: map_of_SomeD set_zip_rightD)
qed simp_all

lemma size_getprop_obj: "size (getprop (JObj kvs) k) < size (JObj kvs)"
  using size_map_of [of kvs k] by (auto split: option.splits)

text \<open>
  \<open>getObjectType(obj)\<close>. A primitive argument (reached through \<open>$ne\<close> or \<open>ops[0]\<close>) has none
  of the properties the function reads, so it is an \<open>'Object'\<close>; \<open>null\<close> and \<open>undefined\<close>
  raise at \<open>obj.__type\<close>.
\<close>

function getObjectType :: "jsval \<Rightarrow> error + jsval" where
  "getObjectType (JArr xs) = Inr (JStr ''Array'')"
| "getObjectType JUndefined = Inl TypeError"
| "getObjectType JNull = Inl TypeError"
| "getObjectType (JBool b) = Inr (JStr ''Object'')"
| "getObjectType (JNum n) = Inr (JStr ''Object'')"
| "getObjectType (JStr s) = Inr (JStr ''Object'')"
| "getObjectType (JObj kvs) =
     (if truthy (getprop (JObj kvs) ''__type'') then typeTagSwitch (JObj kvs)
      else if truthy (getprop (JObj kvs) ''$ne'') then getObjectType (getprop (JObj kvs) ''$ne'')
      else if truthy (getprop (JObj kvs) ''__op'') then
        (if getprop (JObj kvs) ''__op'' = JStr ''Increment'' then Inr (JStr ''Number'')
         else if getprop (JObj kvs) ''__op'' = JStr ''Delete'' then Inr JNull
         else if getprop (JObj kvs) ''__op'' \<in> {JStr ''Add'', JStr ''AddUnique'', JStr ''Remove''}
           then Inr (JStr ''Array'')
         else if getprop (JObj kvs) ''__op'' \<in> {JStr ''AddRelation'', JStr ''RemoveRelation''} then
           (if nullish (getprop (JObj kvs) ''objects'') then Inl TypeError
            else if nullish (getprop (getprop (JObj kvs) ''objects'') ''0'') then Inl TypeError
            else Inr (JObj [(''type'', JStr ''Relation''),
                   (''targetClass'',
                      getprop (getprop (getprop (JObj kvs) ''objects'') ''0'') ''className'')]))
         else if getprop (JObj kvs) ''__op'' = JStr ''Batch'' then
           (if nullish (getprop (JObj kvs) ''ops'') then Inl TypeError
            else getObjectType (getprop (getprop (JObj kvs) ''ops'') ''0''))
         else Inl (UnexpectedOp (getprop (JObj kvs) ''__op'')))
      else Inr (JStr ''Object''))"
  by pat_completeness auto
termination
proof (relation "measure size")
  show "wf (measure size)" by simp
next
  fix kvs
  show "(getprop (JObj kvs) ''$ne'', JObj kvs) \<in> measure size"
    using size_getprop_obj [of kvs "''$ne''"] by simp
next
  fix kvs
  have "size (getprop (getprop (JObj kvs) ''ops'') ''0'') \<le> size (getprop (JObj kvs) ''ops'')"
    by (rule size_getprop)
  also have "\<dots> < size (JObj kvs)" by (rule size_getprop_obj)
  finally show "(getprop (getprop (JObj kvs) ''ops'') ''0'', JObj kvs) \<in> measure size"
    by simp
qed

text \<open>\<open>getType(obj)\<close>: \<open>Inl\<close> is what it throws.\<close>

fun getType :: "jsval \<Rightarrow> error + jsval" where
  "getType (JBool b) = Inr (JStr ''Boolean'')"
| "getType (JStr s) = Inr (JStr ''String'')"
| "getType (JNum n) = Inr (JStr ''Number'')"
| "getType JNull = Inr JUndefined"
| "getType (JArr xs) = getObjectType (JArr xs)"
| "getType (JObj kvs) = getObjectType (JObj kvs)"
| "getType JUndefined = Inl (BadObj JUndefined)"

section \<open>Class-level permissions\<close>

text \<open>\<open>/^[a-zA-Z0-9]{10}$/\<close>, \<open>/^role:.*/\<close> and \<open>/^\*$/\<close>\<close>

definition userIdRegex :: "atom list" where
  "userIdRegex = replicate 10 (One alnum)"

definition roleRegex :: "atom list" where
  "roleRegex = map Lit ''role:'' @ [Star Dot]"

definition publicRegex :: "atom list" where
  "publicRegex = [Lit CHR ''*'']"

text \<open>A function that throws or returns nothing: \<open>Some e\<close> is the error it throws.\<close>

definition verifyPermissionKey :: "string \<Rightarrow> error option" where
  "verifyPermissionKey key =
     (if test_whole userIdRegex key \<or> test_prefix roleRegex key \<or> test_whole publicRegex key
      then None else Some (InvalidPermissionKey key))"

definition CLPValidKeys :: "string list" where
  "CLPValidKeys = [''find'', ''get'', ''create'', ''update'', ''delete'', ''addField'',
                   ''readUserFields'', ''writeUserFields'']"

text \<open>\<open>xs.forEach(f)\<close> with a callback that may throw: the first error stops the loop.\<close>

fun first_error :: "('a \<Rightarrow> error option) \<Rightarrow> 'a list \<Rightarrow> error option" where
  "first_error f [] = None"
| "first_error f (x # xs) = (case f x of Some e \<Rightarrow> Some e | None \<Rightarrow> first_error f xs)"

text \<open>The callback on each entry of \<open>readUserFields\<close> or \<open>writeUserFields\<close>.\<close>

definition validateCLP_pointer :: "jsobj \<Rightarrow> string \<Rightarrow> jsval \<Rightarrow> error option" where
  "validateCLP_pointer flds operation key =
     (let f = getprop (JObj flds) (js_toString key) in
      if \<not> truthy f \<or> \<not> loose_eq_str (getprop f ''type'') ''Pointer''
           \<or> \<not> loose_eq_str (getprop f ''targetClass'') ''_User''
      then Some (InvalidCLPPointerColumn key operation) else None)"

text \<open>The callback on each key of \<open>perms[operation]\<close>.\<close>

definition validateCLP_key :: "jsval \<Rightarrow> string \<Rightarrow> string \<Rightarrow> error option" where
  "validateCLP_key perms_op operation key =
     (case verifyPermissionKey key of
        Some e \<Rightarrow> Some e
      | None \<Rightarrow>
          if \<not> strict_eq (getprop perms_op key) (JBool True)
          then Some (InvalidCLPGrant (getprop perms_op key) operation key) else None)"

definition validateCLP_operation :: "jsval \<Rightarrow> jsobj \<Rightarrow> string \<Rightarrow> error option" where
  "validateCLP_operation perms flds operation =
     (if operation \<notin> set CLPValidKeys then Some (InvalidCLPOperation operation)
      else if operation = ''readUserFields'' \<or> operation = ''writeUserFields'' then
        (case getprop perms operation of
           JArr ks \<Rightarrow> first_error (validateCLP_pointer flds operation) ks
         | v \<Rightarrow> Some (InvalidCLPValue v operation))
      else if nullish (getprop perms operation) then Some TypeError
      else first_error (validateCLP_key (getprop perms operation) operation)
             (object_keys (getprop perms operation)))"

definition validateCLP :: "jsval \<Rightarrow> jsobj \<Rightarrow> error option" where
  "validateCLP perms flds =
     (if \<not> truthy perms then None
      else first_error (validateCLP_operation perms flds) (object_keys perms))"

section \<open>Validating the fields of a class\<close>

text \<open>
  What a validation does: it returns nothing (\<open>Passed\<close>), returns an error object
  \<open>{code, error}\<close>, or throws.
\<close>

datatype check = Passed | Returned error | Thrown error

fun first_check :: "('a \<Rightarrow> check) \<Rightarrow> 'a list \<Rightarrow> check" where
  "first_check f [] = Passed"
| "first_check f (x # xs) = (case f x of Passed \<Rightarrow> first_check f xs | r \<Rightarrow> r)"

text \<open>The body of the first loop of \<open>validateSchemaData\<close>, for one field name.\<close>

definition validateField :: "string \<Rightarrow> jsobj \<Rightarrow> string list \<Rightarrow> string \<Rightarrow> check" where
  "validateField cname flds existingFieldNames fieldName =
     (if fieldName \<in> set existingFieldNames then Passed
      else if \<not> fieldNameIsValid fieldName then Returned (InvalidFieldName fieldName)
      else if \<not> fieldNameIsValidForClass fieldName cname then Returned (FieldCannotBeAdded fieldName)
      else case fieldTypeIsInvalid_decl (getprop (JObj flds) fieldName) of
             Inl e \<Rightarrow> Thrown e
           | Inr (Some e) \<Rightarrow> Returned e
           | Inr None \<Rightarrow> Passed)"

text \<open>\<open>Object.keys(fields).filter(key => fields[key] && fields[key].type === 'GeoPoint')\<close>\<close>

definition geoPointFields :: "jsobj \<Rightarrow> string list" where
  "geoPointFields flds =
     filter (\<lambda>key. truthy (getprop (JObj flds) key)
                  \<and> getprop (getprop (JObj flds) key) ''type'' = JStr ''GeoPoint'')
       (map fst flds)"

text \<open>
  \<open>validateSchemaData(className, fields, classLevelPermissions, existingFieldNames)\<close>
  writes into the object \<open>fields\<close> it is given. The function returns what the call does
  together with the contents of that object after the call. \<open>validateFields\<close> is its
  first loop, over the field names.
\<close>

definition validateFields :: "string \<Rightarrow> jsobj \<Rightarrow> string list \<Rightarrow> check" where
  "validateFields cname flds existingFieldNames =
     first_check (validateField cname flds existingFieldNames) (map fst flds)"

definition validateSchemaData ::
    "string \<Rightarrow> jsobj \<Rightarrow> jsval \<Rightarrow> string list \<Rightarrow> check \<times> jsobj" where
  "validateSchemaData cname flds clp existingFieldNames =
     (case validateFields cname flds existingFieldNames of
        Passed \<Rightarrow>
          (let flds' = spread flds (classColumns cname);
               geoPoints = geoPointFields flds'
           in if length geoPoints > 1
              then (Returned (SchemaGeoPoints (geoPoints ! 1) (geoPoints ! 0)), flds')
              else (case validateCLP clp flds' of
                      Some e \<Rightarrow> (Thrown e, flds')
                    | None \<Rightarrow> (Passed, flds')))
      | r \<Rightarrow> (r, flds))"

section \<open>Objects in a store\<close>

text \<open>
  Where the code writes into an object that its caller still holds, the object is a
  reference into a store: the store is the list of all objects, a reference is an index.
\<close>

type_synonym ref = nat
type_synonym store = "jsobj list"

definition alloc :: "store \<Rightarrow> jsobj \<Rightarrow> ref \<times> store" where
  "alloc h obj = (length h, h @ [obj])"

text \<open>The call \<open>validateSchemaData(className, fields, ...)\<close> on the object \<open>fields\<close> refers to.\<close>

definition validateSchemaData_at ::
    "store \<Rightarrow> string \<Rightarrow> ref \<Rightarrow> jsval \<Rightarrow> string list \<Rightarrow> check \<times> store" where
  "validateSchemaData_at h cname fieldsRef clp existingFieldNames =
     (case validateSchemaData cname (h ! fieldsRef) clp existingFieldNames of
        (r, flds') \<Rightarrow> (r, h[fieldsRef := flds']))"

text \<open>
  \<open>buildMergedSchemaObject(existingFields, putRequest)\<close> builds a new object.
  \<open>putRequest[newField].__op\<close> raises a TypeError on a field that is \<open>null\<close>.
\<close>

definition isDeleteOp :: "jsval \<Rightarrow> bool" where
  "isDeleteOp field = (getprop field ''__op'' = JStr ''Delete'')"

definition sysSchemaField :: "jsobj \<Rightarrow> string list" where
  "sysSchemaField existingFields =
     (case getprop (JObj existingFields) ''_id'' of
        JStr c \<Rightarrow> (case map_of defaultColumns c of Some cols \<Rightarrow> map fst cols | None \<Rightarrow> [])
      | v \<Rightarrow> [])"

definition buildMergedSchemaObject :: "jsobj \<Rightarrow> jsobj \<Rightarrow> error + jsobj" where
  "buildMergedSchemaObject existingFields putRequest =
     (let kept = filter (\<lambda>(oldField, v).
                    oldField \<notin> {''_id'', ''ACL'', ''updatedAt'', ''createdAt'', ''objectId''}
                    \<and> oldField \<notin> set (sysSchemaField existingFields)
                    \<and> \<not> (truthy (getprop (JObj putRequest) oldField)
                          \<and> isDeleteOp (getprop (JObj putRequest) oldField)))
                  existingFields;
          added = filter (\<lambda>(newField, v).
                    newField \<noteq> ''objectId'' \<and> \<not> isDeleteOp v
                    \<and> newField \<notin> set (sysSchemaField existingFields))
                  putRequest
      in if list_ex (\<lambda>(newField, v). newField \<noteq> ''objectId'' \<and> nullish v) putRequest
         then Inl TypeError
         else Inr (spread (spread [] kept) added))"

text \<open>
  The first callback of \<open>updateClass(className, submittedFields, classLevelPermissions)\<close>, from
  the schema that \<open>getOneSchema\<close> resolved with up to the validation of the merged fields:
  \<open>existingRef\<close> is that schema's \<open>fields\<close> object, \<open>submittedRef\<close> the caller's
  \<open>submittedFields\<close>. What follows in the source (the deletions, the reload, the additions and
  the permissions, run as concurrent promises) is not part of this development.
\<close>

definition checkSubmittedField :: "jsobj \<Rightarrow> jsobj \<Rightarrow> string \<Rightarrow> error option" where
  "checkSubmittedField existingFields submittedFields name =
     (let field = getprop (JObj submittedFields) name in
      if nullish field then Some TypeError
      else if truthy (getprop (JObj existingFields) name) \<and> \<not> isDeleteOp field
        then Some (FieldExistsCannotUpdate name)
      else if \<not> truthy (getprop (JObj existingFields) name) \<and> isDeleteOp field
        then Some (FieldDoesNotExist name)
      else None)"

definition updateClass_validate ::
    "store \<Rightarrow> string \<Rightarrow> ref \<Rightarrow> ref \<Rightarrow> jsval \<Rightarrow> check \<times> store" where
  "updateClass_validate h cname existingRef submittedRef clp =
     (case first_error (checkSubmittedField (h ! existingRef) (h ! submittedRef))
             (map fst (h ! submittedRef)) of
        Some e \<Rightarrow> (Thrown e, h)
      | None \<Rightarrow>
          (let h1 = h[existingRef := delete_prop ''_wperm'' (delete_prop ''_rperm'' (h ! existingRef))]
           in case buildMergedSchemaObject (h1 ! existingRef) (h1 ! submittedRef) of
                Inl e \<Rightarrow> (Thrown e, h1)
              | Inr merged \<Rightarrow>
                  (case alloc h1 merged of
                     (newSchema, h2) \<Rightarrow>
                       (case validateSchemaData_at h2 cname newSchema clp
                               (map fst (h2 ! existingRef)) of
                          (Returned e, h3) \<Rightarrow> (Thrown e, h3)
                        | (r, h3) \<Rightarrow> (r, h3)))))"

section \<open>The schema controller\<close>

text \<open>
  The storage adapter and the schema cache are collaborators the controller is given. Each
  of their operations acts on the outside world \<open>'w\<close> (the database, the cache) and
  resolves with a value (\<open>Inr\<close>) or rejects with one (\<open>Inl\<close>). A cache miss is \<open>None\<close>.
\<close>

record 'w env =
  cache_clear :: "'w \<Rightarrow> 'w"
  cache_getAllClasses :: "'w \<Rightarrow> (jsval + schema list option) \<times> 'w"
  cache_setAllClasses :: "schema list \<Rightarrow> 'w \<Rightarrow> (jsval + unit) \<times> 'w"
  cache_getOneSchema :: "string \<Rightarrow> 'w \<Rightarrow> (jsval + schema option) \<times> 'w"
  cache_setOneSchema :: "string \<Rightarrow> schema \<Rightarrow> 'w \<Rightarrow> (jsval + unit) \<times> 'w"
  db_getAllClasses :: "'w \<Rightarrow> (jsval + schema list) \<times> 'w"
  db_getClass :: "string \<Rightarrow> 'w \<Rightarrow> (jsval + schema) \<times> 'w"
  db_createClass :: "string \<Rightarrow> schema \<Rightarrow> 'w \<Rightarrow> (jsval + schema) \<times> 'w"
  db_addFieldIfNotExists :: "string \<Rightarrow> string \<Rightarrow> jsval \<Rightarrow> 'w \<Rightarrow> (jsval + unit) \<times> 'w"
  db_deleteFields :: "string \<Rightarrow> jsval \<Rightarrow> string list \<Rightarrow> 'w \<Rightarrow> (jsval + unit) \<times> 'w"
  db_deleteClass :: "string \<Rightarrow> 'w \<Rightarrow> (jsval + unit) \<times> 'w"

text \<open>Every call of a collaborator is recorded, in order.\<close>

datatype call =
    CacheClear
  | CacheGetAllClasses
  | CacheSetAllClasses "schema list"
  | CacheGetOneSchema string
  | CacheSetOneSchema string schema
  | DbGetAllClasses
  | DbGetClass string
  | DbCreateClass string schema
  | DbAddFieldIfNotExists string string jsval
  | DbDeleteFields string jsval "string list"
  | DbDeleteClass string

text \<open>
  The controller: \<open>this.data\<close>, \<open>this.perms\<close>, and \<open>this.reloadDataPromise\<close>, which holds
  the promise of a reload that is in flight (a promise is named by a number).
\<close>

record 'w state =
  data :: jsobj
  perms :: jsobj
  reloadDataPromise :: "nat option"
  world :: 'w
  trace :: "call list"

text \<open>
  What a call of a promise-returning method comes to when it is run to its end without any
  other task running in between: the promise resolves, it rejects, the method throws before
  returning a promise, or the result hangs on a reload that was already in flight when the
  call began (\<open>Pending\<close>: this run does not settle it).
\<close>

datatype 'a outcome = Resolved 'a | Rejected error | Threw error | Pending nat

text \<open>A callback of \<open>then\<close> or \<open>catch\<close> that throws rejects the promise.\<close>

definition settle :: "'a outcome \<times> 's \<Rightarrow> 'a outcome \<times> 's" where
  "settle r = (case r of (Threw e, s) \<Rightarrow> (Rejected e, s) | other \<Rightarrow> other)"

text \<open>\<open>p.then(f)\<close>, \<open>p.catch(h)\<close> and \<open>p.then(f, h)\<close>\<close>

definition then_do ::
    "'a outcome \<times> 's \<Rightarrow> ('a \<Rightarrow> 's \<Rightarrow> 'b outcome \<times> 's) \<Rightarrow> 'b outcome \<times> 's" where
  "then_do r f =
     (case r of
        (Resolved v, s) \<Rightarrow> settle (f v s)
      | (Rejected e, s) \<Rightarrow> (Rejected e, s)
      | (Threw e, s) \<Rightarrow> (Threw e, s)
      | (Pending p, s) \<Rightarrow> (Pending p, s))"

definition catch_do ::
    "'a outcome \<times> 's \<Rightarrow> (error \<Rightarrow> 's \<Rightarrow> 'a outcome \<times> 's) \<Rightarrow> 'a outcome \<times> 's" where
  "catch_do r h = (case r of (Rejected e, s) \<Rightarrow> settle (h e s) | other \<Rightarrow> other)"

definition then_or ::
    "'a outcome \<times> 's \<Rightarrow> ('a \<Rightarrow> 's \<Rightarrow> 'b outcome \<times> 's) \<Rightarrow> (error \<Rightarrow> 's \<Rightarrow> 'b outcome \<times> 's)
      \<Rightarrow> 'b outcome \<times> 's" where
  "then_or r f h =
     (case r of
        (Resolved v, s) \<Rightarrow> settle (f v s)
      | (Rejected e, s) \<Rightarrow> settle (h e s)
      | (Threw e, s) \<Rightarrow> (Threw e, s)
      | (Pending p, s) \<Rightarrow> (Pending p, s))"

text \<open>A call of a collaborator.\<close>

definition call_ext :: "call \<Rightarrow> ('w \<Rightarrow> (jsval + 'a) \<times> 'w) \<Rightarrow> 'w state \<Rightarrow> 'a outcome \<times> 'w state" where
  "call_ext c f s =
     (case f (world s) of
        (Inl x, w) \<Rightarrow> (Rejected (External x), s\<lparr>world := w, trace := trace s @ [c]\<rparr>)
      | (Inr v, w) \<Rightarrow> (Resolved v, s\<lparr>world := w, trace := trace s @ [c]\<rparr>))"

text \<open>\<open>this._cache.clear()\<close>\<close>

definition cache_cleared :: "'w env \<Rightarrow> 'w state \<Rightarrow> 'w state" where
  "cache_cleared env s = s\<lparr>world := cache_clear env (world s), trace := trace s @ [CacheClear]\<rparr>"

subsection \<open>Loading the schema\<close>

definition getAllClasses :: "'w env \<Rightarrow> bool \<Rightarrow> 'w state \<Rightarrow> schema list outcome \<times> 'w state" where
  "getAllClasses env clearCache s =
     then_do (call_ext CacheGetAllClasses (cache_getAllClasses env)
                (if clearCache then cache_cleared env s else s))
       (\<lambda>allClasses s1.
          case (if clearCache then None else allClasses) of
            Some (c # cs) \<Rightarrow> (Resolved (c # cs), s1)
          | other \<Rightarrow>
              then_do
                (then_do (call_ext DbGetAllClasses (db_getAllClasses env) s1)
                   (\<lambda>allSchemas s2. (Resolved (map injectDefaultSchema allSchemas), s2)))
                (\<lambda>allSchemas s3.
                   then_do (call_ext (CacheSetAllClasses allSchemas)
                              (cache_setAllClasses env allSchemas) s3)
                     (\<lambda>u s4. (Resolved allSchemas, s4))))"

text \<open>The body of \<open>allSchemas.forEach\<close> in \<open>reloadData\<close>.\<close>

definition storeSchema :: "schema \<Rightarrow> 'w state \<Rightarrow> 'w state" where
  "storeSchema sch s =
     s\<lparr>data := set_prop (className sch) (JObj (schema_fields (injectDefaultSchema sch))) (data s),
       perms := set_prop (className sch) (classLevelPermissions sch) (perms s)\<rparr>"

text \<open>
  The body of \<open>volatileClasses.forEach\<close>: the entry of a volatile class is the whole schema
  object, not its fields.
\<close>

definition storeVolatile :: "string \<Rightarrow> 'w state \<Rightarrow> 'w state" where
  "storeVolatile cname s =
     s\<lparr>data := set_prop cname
         (schema_object (injectDefaultSchema
            \<lparr>className = cname, schema_fields = [], classLevelPermissions = JObj []\<rparr>))
         (data s)\<rparr>"

text \<open>
  \<open>reloadData(options)\<close> with \<open>options.clearCache = clearCache\<close>. A reload that starts
  stores its promise in \<open>this.reloadDataPromise\<close> and deletes it when it settles.
\<close>

definition reloadFresh :: "'w env \<Rightarrow> bool \<Rightarrow> 'w state \<Rightarrow> unit outcome \<times> 'w state" where
  "reloadFresh env clearCache s =
     (case getAllClasses env clearCache (s\<lparr>data := [], perms := []\<rparr>) of
        (Resolved allSchemas, s1) \<Rightarrow>
          (Resolved (),
           (fold storeVolatile volatileClasses (fold storeSchema allSchemas s1))
             \<lparr>reloadDataPromise := None\<rparr>)
      | (Rejected e, s1) \<Rightarrow> (Rejected e, s1\<lparr>reloadDataPromise := None\<rparr>)
      | (Threw e, s1) \<Rightarrow> (Threw e, s1)
      | (Pending p, s1) \<Rightarrow> (Pending p, s1))"

definition reloadData :: "'w env \<Rightarrow> bool \<Rightarrow> 'w state \<Rightarrow> unit outcome \<times> 'w state" where
  "reloadData env clearCache s =
     (let s1 = (if clearCache then cache_cleared env s else s) in
      case reloadDataPromise s1 of
        Some p \<Rightarrow> if \<not> clearCache then (Pending p, s1) else reloadFresh env clearCache s1
      | None \<Rightarrow> reloadFresh env clearCache s1)"

text \<open>
  \<open>getOneSchema(className, allowVolatileClasses, options)\<close>; it resolves with a schema
  object, or for a volatile class with the entry of \<open>this.data\<close>.
\<close>

definition getOneSchema ::
    "'w env \<Rightarrow> string \<Rightarrow> bool \<Rightarrow> bool \<Rightarrow> 'w state \<Rightarrow> jsval outcome \<times> 'w state" where
  "getOneSchema env cname allowVolatileClasses clearCache s =
     (let s0 = (if clearCache then cache_cleared env s else s) in
      if allowVolatileClasses \<and> cname \<in> set volatileClasses
      then (Resolved (getprop (JObj (data s0)) cname), s0)
      else
        then_do (call_ext (CacheGetOneSchema cname) (cache_getOneSchema env cname) s0)
          (\<lambda>cached s1.
             case (if clearCache then None else cached) of
               Some sch \<Rightarrow> (Resolved (schema_object sch), s1)
             | None \<Rightarrow>
                 then_do
                   (then_do (call_ext (DbGetClass cname) (db_getClass env cname) s1)
                      (\<lambda>sch s2. (Resolved (injectDefaultSchema sch), s2)))
                   (\<lambda>result s3.
                      then_do (call_ext (CacheSetOneSchema cname result)
                                 (cache_setOneSchema env cname result) s3)
                        (\<lambda>u s4. (Resolved (schema_object result), s4)))))"

text \<open>\<open>getExpectedType(className, fieldName)\<close>\<close>

definition getExpectedType :: "'w state \<Rightarrow> string \<Rightarrow> string \<Rightarrow> jsval" where
  "getExpectedType s cname fieldName =
     (if truthy (getprop (JObj (data s)) cname)
      then (let expectedType = getprop (getprop (JObj (data s)) cname) fieldName
            in if expectedType = JStr ''map'' then JStr ''Object'' else expectedType)
      else JUndefined)"

subsection \<open>Creating classes\<close>

text \<open>
  \<open>validateNewClass(className, fields, classLevelPermissions)\<close>, with the contents of
  \<open>fields\<close> after the call, and the same call on a reference.
\<close>

definition validateNewClass :: "'w state \<Rightarrow> string \<Rightarrow> jsobj \<Rightarrow> jsval \<Rightarrow> check \<times> jsobj" where
  "validateNewClass s cname flds clp =
     (if truthy (getprop (JObj (data s)) cname) then (Thrown (ClassAlreadyExists cname), flds)
      else if \<not> classNameIsValid cname then (Returned (InvalidClassName cname), flds)
      else validateSchemaData cname flds clp [])"

definition validateNewClass_at ::
    "'w state \<Rightarrow> store \<Rightarrow> string \<Rightarrow> ref \<Rightarrow> jsval \<Rightarrow> check \<times> store" where
  "validateNewClass_at s h cname fieldsRef clp =
     (if truthy (getprop (JObj (data s)) cname) then (Thrown (ClassAlreadyExists cname), h)
      else if \<not> classNameIsValid cname then (Returned (InvalidClassName cname), h)
      else validateSchemaData_at h cname fieldsRef clp [])"

definition addClassIfNotExists ::
    "'w env \<Rightarrow> string \<Rightarrow> jsobj \<Rightarrow> jsval \<Rightarrow> 'w state \<Rightarrow> schema outcome \<times> 'w state" where
  "addClassIfNotExists env cname flds clp s =
     (case validateNewClass s cname flds clp of
        (Thrown e, flds') \<Rightarrow> (Threw e, s)
      | (Returned e, flds') \<Rightarrow> (Rejected e, s)
      | (Passed, flds') \<Rightarrow>
          (let adapterSchema = convertSchemaToAdapterSchema
                 \<lparr>className = cname, schema_fields = flds', classLevelPermissions = clp\<rparr>
           in catch_do
                (then_do
                   (then_do (call_ext (DbCreateClass cname adapterSchema)
                               (db_createClass env cname adapterSchema) s)
                      (\<lambda>res s1. (Resolved (convertAdapterSchemaToParseSchema res), s1)))
                   (\<lambda>res s2. (Resolved res, cache_cleared env s2)))
                (\<lambda>error s3.
                   if err_code error = JNum DUPLICATE_VALUE
                   then (Threw (ClassAlreadyExists cname), s3)
                   else (Threw error, s3))))"

definition enforceClassExists :: "'w env \<Rightarrow> string \<Rightarrow> 'w state \<Rightarrow> unit outcome \<times> 'w state" where
  "enforceClassExists env cname s =
     (if truthy (getprop (JObj (data s)) cname) then (Resolved (), s)
      else
        catch_do
          (then_do
             (catch_do
                (then_do (addClassIfNotExists env cname [] JUndefined s)
                   (\<lambda>res s1. reloadData env True s1))
                (\<lambda>error s2. reloadData env True s2))
             (\<lambda>u s3.
                if truthy (getprop (JObj (data s3)) cname) then (Resolved (), s3)
                else (Threw (FailedToAdd cname), s3)))
          (\<lambda>error s4. (Threw ClassNameDoesNotRevalidate, s4)))"

subsection \<open>Fields\<close>

text \<open>\<open>fieldName.indexOf(".") > 0\<close> and \<open>fieldName.split(".")[0]\<close>\<close>

definition isSubdocumentKey :: "string \<Rightarrow> bool" where
  "isSubdocumentKey fieldName =
     (CHR ''.'' \<in> set fieldName \<and> takeWhile (\<lambda>c. c \<noteq> CHR ''.'') fieldName \<noteq> [])"

definition rootKey :: "string \<Rightarrow> string" where
  "rootKey fieldName = takeWhile (\<lambda>c. c \<noteq> CHR ''.'') fieldName"

text \<open>\<open>if (typeof type === 'string') { type = { type }; }\<close>\<close>

definition typeObject :: "jsval \<Rightarrow> jsval" where
  "typeObject type0 = (if isString type0 then JObj [(''type'', type0)] else type0)"

text \<open>The callback of \<open>this.reloadData().then\<close> in \<open>enforceFieldExists\<close>.\<close>

definition enforceFieldAfterReload ::
    "'w env \<Rightarrow> string \<Rightarrow> string \<Rightarrow> jsval \<Rightarrow> 'w state \<Rightarrow> unit outcome \<times> 'w state" where
  "enforceFieldAfterReload env cname fieldName type0 s =
     (let expectedType = getExpectedType s cname fieldName;
          type = typeObject type0
      in if truthy expectedType then
           (case dbTypeMatchesObjectType expectedType type of
              Inl e \<Rightarrow> (Threw e, s)
            | Inr False \<Rightarrow>
                (Threw (SchemaMismatch cname fieldName
                          (if truthy (getprop expectedType ''type'')
                           then getprop expectedType ''type'' else expectedType)
                          (getprop type ''type'')), s)
            | Inr True \<Rightarrow> (Resolved (), s))
         else
           then_do
             (then_or (call_ext (DbAddFieldIfNotExists cname fieldName type)
                         (db_addFieldIfNotExists env cname fieldName type) s)
                (\<lambda>u s1. reloadData env True s1)
                (\<lambda>error s1. reloadData env True s1))
             (\<lambda>u s2.
                case dbTypeMatchesObjectType (getExpectedType s2 cname fieldName) type of
                  Inl e \<Rightarrow> (Threw e, s2)
                | Inr False \<Rightarrow> (Threw (CouldNotAddField fieldName), s2)
                | Inr True \<Rightarrow> (Resolved (), cache_cleared env s2)))"

definition enforceFieldExists ::
    "'w env \<Rightarrow> string \<Rightarrow> string \<Rightarrow> jsval \<Rightarrow> 'w state \<Rightarrow> unit outcome \<times> 'w state" where
  "enforceFieldExists env cname fieldName0 type0 s =
     (let fieldName = (if isSubdocumentKey fieldName0 then rootKey fieldName0 else fieldName0);
          type = (if isSubdocumentKey fieldName0 then JStr ''Object'' else type0)
      in if \<not> fieldNameIsValid fieldName then (Threw (InvalidFieldNameDot fieldName), s)
         else if \<not> truthy type then (Resolved (), s)
         else then_do (reloadData env False s)
                (\<lambda>u s1. enforceFieldAfterReload env cname fieldName type s1))"

text \<open>
  \<open>deleteField(fieldName, className, database)\<close>; \<open>database.adapter\<close> is the storage
  adapter.
\<close>

definition deleteField :: "'w env \<Rightarrow> string \<Rightarrow> string \<Rightarrow> 'w state \<Rightarrow> unit outcome \<times> 'w state" where
  "deleteField env fieldName cname s =
     (if \<not> classNameIsValid cname then (Threw (InvalidClassName cname), s)
      else if \<not> fieldNameIsValid fieldName then (Threw (InvalidFieldName fieldName), s)
      else if \<not> fieldNameIsValidForClass fieldName cname
        then (Threw (FieldCannotBeChanged fieldName), s)
      else
        then_do
          (then_do
             (catch_do (getOneSchema env cname False True s)
                (\<lambda>error s1.
                   if error = External JUndefined then (Threw (ClassDoesNotExist cname), s1)
                   else (Threw error, s1)))
             (\<lambda>sch s2.
                if nullish sch \<or> nullish (getprop sch ''fields'') then (Threw TypeError, s2)
                else if \<not> truthy (getprop (getprop sch ''fields'') fieldName)
                  then (Threw (FieldDoesNotExist fieldName), s2)
                else if loose_eq_str (getprop (getprop (getprop sch ''fields'') fieldName) ''type'')
                          ''Relation''
                  then then_do
                         (call_ext (DbDeleteFields cname sch [fieldName])
                            (db_deleteFields env cname sch [fieldName]) s2)
                         (\<lambda>u s3. call_ext (DbDeleteClass (''_Join:'' @ fieldName @ '':'' @ cname))
                                    (db_deleteClass env (''_Join:'' @ fieldName @ '':'' @ cname)) s3)
                else call_ext (DbDeleteFields cname sch [fieldName])
                       (db_deleteFields env cname sch [fieldName]) s2))
          (\<lambda>u s4. (Resolved (), cache_cleared env s4)))"

subsection \<open>Validating an object\<close>

text \<open>\<open>validateRequiredColumns(className, object, query)\<close>\<close>

definition columnIsMissing :: "jsobj \<Rightarrow> jsval \<Rightarrow> string \<Rightarrow> bool" where
  "columnIsMissing object query column =
     (if truthy query \<and> truthy (getprop query ''objectId'') then
        (if truthy (getprop (JObj object) column) \<and> typeofObject (getprop (JObj object) column)
         then loose_eq_str (getprop (getprop (JObj object) column) ''__op'') ''Delete''
         else False)
      else \<not> truthy (getprop (JObj object) column))"

definition validateRequiredColumns :: "string \<Rightarrow> jsobj \<Rightarrow> jsval \<Rightarrow> unit outcome" where
  "validateRequiredColumns cname object query =
     (case map_of requiredColumns cname of
        None \<Rightarrow> Resolved ()
      | Some columns \<Rightarrow>
          (case filter (columnIsMissing object query) columns of
             [] \<Rightarrow> Resolved ()
           | column # others \<Rightarrow> Threw (RequiredColumnMissing column)))"

text \<open>
  The loop of \<open>validateObject\<close> runs before any promise settles. It ends by throwing what
  \<open>getType\<close> throws, by returning at the second GeoPoint, or at the end of the object; up to
  there it has chained one \<open>enforceFieldExists\<close> for each field in \<open>steps\<close>.
\<close>

datatype scan = ScanThrew error | ScanGeo | ScanDone

fun scanFields :: "jsobj \<Rightarrow> nat \<Rightarrow> (string \<times> jsval) list \<Rightarrow> scan \<times> (string \<times> jsval) list" where
  "scanFields [] geocount steps = (ScanDone, steps)"
| "scanFields ((fieldName, v) # rest) geocount steps =
     (if v = JUndefined then scanFields rest geocount steps
      else case getType v of
             Inl e \<Rightarrow> (ScanThrew e, steps)
           | Inr expected \<Rightarrow>
               (let geocount' = (if expected = JStr ''GeoPoint'' then Suc geocount else geocount)
                in if geocount' > 1 then (ScanGeo, steps)
                   else if \<not> truthy expected then scanFields rest geocount' steps
                   else if fieldName = ''ACL'' then scanFields rest geocount' steps
                   else scanFields rest geocount' (steps @ [(fieldName, expected)])))"

text \<open>\<open>promise = promise.then(schema => schema.enforceFieldExists(...))\<close>, step after step.\<close>

fun enforceFields ::
    "'w env \<Rightarrow> string \<Rightarrow> (string \<times> jsval) list \<Rightarrow> unit outcome \<times> 'w state
      \<Rightarrow> unit outcome \<times> 'w state" where
  "enforceFields env cname [] r = r"
| "enforceFields env cname ((fieldName, expected) # steps) r =
     enforceFields env cname steps
       (then_do r (\<lambda>u s. enforceFieldExists env cname fieldName expected s))"

text \<open>
  \<open>validateObject(className, object, query)\<close>. When the loop throws, the call throws, and the
  promises chained so far still run: the state is the one they leave.
\<close>

definition validateObject ::
    "'w env \<Rightarrow> string \<Rightarrow> jsobj \<Rightarrow> jsval \<Rightarrow> 'w state \<Rightarrow> unit outcome \<times> 'w state" where
  "validateObject env cname object query s =
     (case enforceClassExists env cname s of
        (Threw e, s0) \<Rightarrow> (Threw e, s0)
      | promise \<Rightarrow>
          (case scanFields object 0 [] of
             (ScanThrew e, steps) \<Rightarrow> (Threw e, snd (enforceFields env cname steps promise))
           | (ScanGeo, steps) \<Rightarrow>
               then_do (enforceFields env cname steps promise)
                 (\<lambda>u s1. (Rejected TooManyGeoPoints, s1))
           | (ScanDone, steps) \<Rightarrow>
               then_do (enforceFields env cname steps promise)
                 (\<lambda>u s1. (validateRequiredColumns cname object query, s1))))"

subsection \<open>Permissions\<close>

text \<open>\<open>testBaseCLP(className, aclGroup, operation)\<close>\<close>

definition testBaseCLP :: "'w state \<Rightarrow> string \<Rightarrow> string list \<Rightarrow> string \<Rightarrow> bool" where
  "testBaseCLP s cname aclGroup operation =
     (if \<not> truthy (getprop (JObj (perms s)) cname)
         \<or> \<not> truthy (getprop (getprop (JObj (perms s)) cname) operation) then True
      else if truthy (getprop (getprop (getprop (JObj (perms s)) cname) operation) ''*'') then True
      else if list_ex (\<lambda>acl. strict_eq
                 (getprop (getprop (getprop (JObj (perms s)) cname) operation) acl) (JBool True))
                aclGroup then True
      else False)"

text \<open>
  \<open>validatePermission(className, aclGroup, operation)\<close> returns a resolved promise, returns
  \<open>true\<close>, or throws.
\<close>

datatype permission = Granted | ReturnedTrue | Denied error

definition validatePermission :: "'w state \<Rightarrow> string \<Rightarrow> string list \<Rightarrow> string \<Rightarrow> permission" where
  "validatePermission s cname aclGroup operation =
     (if testBaseCLP s cname aclGroup operation then Granted
      else if \<not> truthy (getprop (JObj (perms s)) cname)
              \<or> \<not> truthy (getprop (getprop (JObj (perms s)) cname) operation) then ReturnedTrue
      else
        (let classPerms = getprop (JObj (perms s)) cname;
             permissionField = (if operation \<in> set [''get'', ''find''] then ''readUserFields''
                                else ''writeUserFields'')
         in if permissionField = ''writeUserFields'' \<and> operation = ''create''
            then Denied (OperationForbidden operation cname)
            else if isArray (getprop classPerms permissionField)
                    \<and> truthy (getprop (getprop classPerms permissionField) ''length'')
              then Granted
            else Denied (OperationForbidden operation cname)))"

section \<open>Notions used in the statements\<close>

text \<open>
  The join-table name of the specification, \<open>_Join:<field>:<class>\<close>, read on the whole
  string with the character class of the source's expression: \<open>_Join:\<close>, one or more
  characters of \<open>[A-Za-z0-9_]\<close>, a colon, one or more characters of \<open>[A-Za-z0-9_]\<close>, and
  nothing after.
\<close>

definition spec_join_table_name :: "string \<Rightarrow> bool" where
  "spec_join_table_name s =
     (take 6 s = ''_Join:'' \<and>
      (let r = drop 6 s; f = takeWhile (\<lambda>c. c \<noteq> CHR '':'') r; c = drop (Suc (length f)) r
       in length f < length r \<and> f \<noteq> [] \<and> c \<noteq> [] \<and> list_all (in_class word) f
          \<and> list_all (in_class word) c))"





text \<open>
  A default field of a class: one of the four fields every class has, or a default column
  of that class.
\<close>

definition isDefaultField :: "string \<Rightarrow> string \<Rightarrow> bool" where
  "isDefaultField cname f =
     (f \<in> set [''objectId'', ''createdAt'', ''updatedAt'', ''ACL'']
      \<or> f \<in> fst ` set (classColumns cname))"

text \<open>A value is a non-empty array.\<close>

fun nonEmptyArray :: "jsval \<Rightarrow> bool" where
  "nonEmptyArray (JArr (x # xs)) = True"
| "nonEmptyArray v = False"

text \<open>A value that is compared by value: not an array, not an object.\<close>

fun isPrimitive :: "jsval \<Rightarrow> bool" where
  "isPrimitive (JArr xs) = False"
| "isPrimitive (JObj kvs) = False"
| "isPrimitive v = True"

definition sameType :: "jsval \<Rightarrow> jsval \<Rightarrow> bool" where
  "sameType a b =
     (strict_eq (getprop a ''type'') (getprop b ''type'')
      \<and> strict_eq (getprop a ''targetClass'') (getprop b ''targetClass''))"

text \<open>
  The compatibility of two field types in the words of the specification: the same tag
  and, for a Pointer or a Relation, the same target class.
\<close>

definition compatibleTypes :: "jsval \<Rightarrow> jsval \<Rightarrow> bool" where
  "compatibleTypes a b =
     (strict_eq (getprop a ''type'') (getprop b ''type'')
      \<and> (if getprop a ''type'' = JStr ''Pointer'' \<or> getprop a ''type'' = JStr ''Relation''
         then strict_eq (getprop a ''targetClass'') (getprop b ''targetClass'') else True))"

text \<open>Every error a call ends with, thrown or rejected, is one of \<open>E\<close>.\<close>

definition errs_in :: "error set \<Rightarrow> 'a outcome \<times> 's \<Rightarrow> bool" where
  "errs_in E r = (case fst r of Rejected e \<Rightarrow> e \<in> E | Threw e \<Rightarrow> e \<in> E | other \<Rightarrow> True)"

text \<open>The errors other than the one of the GeoPoint count of \<open>validateObject\<close>.\<close>

definition otherErrors :: "error set" where
  "otherErrors = {e. e \<noteq> TooManyGeoPoints}"

text \<open>The number of fields of an object whose value is classified as a GeoPoint.\<close>

definition isGeoPointValue :: "jsval \<Rightarrow> bool" where
  "isGeoPointValue v = (v \<noteq> JUndefined \<and> getType v = Inr (JStr ''GeoPoint''))"

definition geoPointCount :: "jsobj \<Rightarrow> nat" where
  "geoPointCount object = length (filter (\<lambda>(k, v). isGeoPointValue v) object)"

text \<open>No field of the object makes \<open>getType\<close> throw.\<close>

definition classifiable :: "jsobj \<Rightarrow> bool" where
  "classifiable object =
     list_all (\<lambda>(k, v). v = JUndefined \<or> (case getType v of Inl e \<Rightarrow> False | Inr t \<Rightarrow> True)) object"

text \<open>
  The promise \<open>validateObject\<close> has chained when its loop ends: the class is enforced,
  then each field the loop has passed.
\<close>

definition enforcedBefore ::
    "'w env \<Rightarrow> string \<Rightarrow> jsobj \<Rightarrow> 'w state \<Rightarrow> unit outcome \<times> 'w state" where
  "enforcedBefore env cname object s =
     enforceFields env cname (snd (scanFields object 0 [])) (enforceClassExists env cname s)"

section \<open>Concrete scenarios\<close>

text \<open>
  For the concrete scenarios: a storage adapter that keeps the classes in a list, with a
  cache that never has an entry.
\<close>

definition mem_env :: "schema list env" where
  "mem_env = \<lparr>
     cache_clear = (\<lambda>w. w),
     cache_getAllClasses = (\<lambda>w. (Inr None, w)),
     cache_setAllClasses = (\<lambda>ss w. (Inr (), w)),
     cache_getOneSchema = (\<lambda>c w. (Inr None, w)),
     cache_setOneSchema = (\<lambda>c sch w. (Inr (), w)),
     db_getAllClasses = (\<lambda>w. (Inr w, w)),
     db_getClass = (\<lambda>c w. case find (\<lambda>sch. className sch = c) w of
                              Some sch \<Rightarrow> (Inr sch, w) | None \<Rightarrow> (Inl JUndefined, w)),
     db_createClass = (\<lambda>c sch w. if list_ex (\<lambda>x. className x = c) w
                        then (Inl (JObj [(''code'', JNum 137)]), w) else (Inr sch, w @ [sch])),
     db_addFieldIfNotExists = (\<lambda>c f t w. (Inr (),
        map (\<lambda>sch. if className sch = c \<and> map_of (schema_fields sch) f = None
                    then sch\<lparr>schema_fields := schema_fields sch @ [(f, t)]\<rparr> else sch) w)),
     db_deleteFields = (\<lambda>c sch fs w. (Inr (),
        map (\<lambda>x. if className x = c
                  then x\<lparr>schema_fields := filter (\<lambda>(k, v). k \<notin> set fs) (schema_fields x)\<rparr>
                  else x) w)),
     db_deleteClass = (\<lambda>c w. (Inr (), filter (\<lambda>x. className x \<noteq> c) w)) \<rparr>"

text \<open>A controller that has loaded nothing yet, over a given database.\<close>

definition fresh_state :: "schema list \<Rightarrow> schema list state" where
  "fresh_state w = \<lparr>data = [], perms = [], reloadDataPromise = None, world = w, trace = []\<rparr>"

definition userPublic :: schema where
  "userPublic = \<lparr> className = ''_User'',
     schema_fields = [(''objectId'', ty ''String''), (''ACL'', ty ''ACL''),
                      (''username'', ty ''String''), (''password'', ty ''String'')],
     classLevelPermissions = JUndefined \<rparr>"

definition gameAdapter :: schema where
  "gameAdapter = \<lparr> className = ''Game'',
     schema_fields = [(''objectId'', ty ''String''), (''score'', ty ''Number''),
                      (''_rperm'', ty ''Array''), (''_wperm'', ty ''Array'')],
     classLevelPermissions = JUndefined \<rparr>"

definition userAdapter :: schema where
  "userAdapter = \<lparr> className = ''_User'',
     schema_fields = [(''objectId'', ty ''String''), (''username'', ty ''String''),
                      (''authData'', ty ''Object''), (''_rperm'', ty ''Array''),
                      (''_wperm'', ty ''Array''), (''_hashed_password'', ty ''String'')],
     classLevelPermissions = JUndefined \<rparr>"


text \<open>
  A class \<open>Game\<close> whose operations are granted to one role only and that names an owner
  field for reading and writing.
\<close>

definition game_perms :: jsval where
  "game_perms = JObj
     [(''find'', JObj [(''role:admin'', JBool True)]),
      (''create'', JObj [(''role:admin'', JBool True)]),
      (''update'', JObj [(''role:admin'', JBool True)]),
      (''readUserFields'', JArr [JStr ''owner'']),
      (''writeUserFields'', JArr [JStr ''owner''])]"

definition game_state :: "schema list state" where
  "game_state = \<lparr>data = [], perms = [(''Game'', game_perms)], reloadDataPromise = None,
                  world = [], trace = []\<rparr>"


text \<open>Submitted fields: a new field, and a field with an invalid name.\<close>

definition nickFields :: jsobj where
  "nickFields = [(''nick'', ty ''String'')]"

definition badFields :: jsobj where
  "badFields = [(''1bad'', ty ''String'')]"

text \<open>
  A class \<open>Place\<close> that has one GeoPoint field, the controller once it has loaded it, and
  a GeoPoint value.
\<close>

definition placeSchema :: schema where
  "placeSchema = \<lparr>className = ''Place'', schema_fields = [(''loc'', ty ''GeoPoint'')],
                  classLevelPermissions = JUndefined\<rparr>"

definition place_state :: "schema list state" where
  "place_state = snd (reloadData mem_env False (fresh_state [placeSchema]))"

definition geo :: jsval where
  "geo = JObj [(''__type'', JStr ''GeoPoint''), (''latitude'', JNum 1), (''longitude'', JNum 2)]"

text \<open>The controller once it has loaded the class \<open>Game\<close>, whose field \<open>score\<close> is a Number.\<close>

definition game_loaded :: "schema list state" where
  "game_loaded = snd (reloadData mem_env False (fresh_state [gameAdapter]))"

section \<open>Lemmas on property lists\<close>

lemmas regex_defs = test_prefix_def test_whole_def joinClassRegex_def classAndFieldRegex_def
  word_def alpha_def alnum_def

lemmas column_defs = defaultColumns_def defaultColumns_Default_def defaultColumns_User_def
  defaultColumns_Installation_def defaultColumns_Role_def defaultColumns_Session_def
  defaultColumns_Product_def defaultColumns_PushStatus_def

lemma map_of_replace:
  "map_of (map (\<lambda>(k', v'). if k' = k then (k', v) else (k', v')) kvs) x
     = (if x = k then (if k \<in> fst ` set kvs then Some v else None) else map_of kvs x)"
proof (induction kvs)
  case Nil
  then show ?case by simp
next
  case (Cons kv kvs)
  obtain a b where kv: "kv = (a, b)" by (cases kv)
  show ?case
  proof (cases "x = k")
    case True
    then show ?thesis using Cons.IH by (cases "a = k") (simp_all add: kv)
  next
    case False
    then show ?thesis using Cons.IH by (cases "a = k") (simp_all add: kv)
  qed
qed

lemma map_of_set_prop: "map_of (set_prop k v kvs) x = (if x = k then Some v else map_of kvs x)"
proof (cases "k \<in> fst ` set kvs")
  case True
  then show ?thesis
    by (simp add: set_prop_def map_of_replace)
next
  case False
  then have "map_of kvs k = None"
    by (simp add: map_of_eq_None_iff)
  with False show ?thesis
    by (cases "x = k") (simp_all add: set_prop_def map_add_def split: option.split)
qed


lemma spread_Nil: "spread a [] = a"
  by (simp add: spread_def)

lemma spread_Cons: "spread a ((k, v) # b) = spread (set_prop k v a) b"
  by (simp add: spread_def)

lemma map_of_spread_other: "k \<notin> fst ` set b \<Longrightarrow> map_of (spread a b) k = map_of a k"
proof (induction b arbitrary: a)
  case Nil
  then show ?case by (simp add: spread_Nil)
next
  case (Cons kv b)
  obtain k' v' where kv: "kv = (k', v')" by (cases kv)
  from Cons.prems have "k \<noteq> k'" "k \<notin> fst ` set b" by (auto simp: kv)
  then show ?case
    using Cons.IH [of "set_prop k' v' a"] by (simp add: kv spread_Cons map_of_set_prop)
qed

lemma map_of_spread_member:
  "distinct (map fst b) \<Longrightarrow> (k, v) \<in> set b \<Longrightarrow> map_of (spread a b) k = Some v"
proof (induction b arbitrary: a)
  case Nil
  then show ?case by simp
next
  case (Cons kv b)
  obtain k' v' where kv: "kv = (k', v')" by (cases kv)
  show ?case
  proof (cases "(k, v) = (k', v')")
    case True
    with Cons.prems have "k \<notin> fst ` set b" by (auto simp: kv)
    then have "map_of (spread (set_prop k v a) b) k = map_of (set_prop k v a) k"
      by (rule map_of_spread_other)
    with True show ?thesis by (simp add: kv spread_Cons map_of_set_prop)
  next
    case False
    with Cons.prems have "(k, v) \<in> set b" "distinct (map fst b)" by (auto simp: kv)
    then show ?thesis
      using Cons.IH [of "set_prop k' v' a"] by (simp add: kv spread_Cons)
  qed
qed

lemma getprop_obj_member:
  "k \<in> fst ` set kvs \<Longrightarrow> \<exists>v. (k, v) \<in> set kvs \<and> getprop (JObj kvs) k = v"
  by (cases "map_of kvs k") (auto simp: map_of_eq_None_iff dest: map_of_SomeD)

lemma show_nat_digits: "set (show_nat n) \<subseteq> set ''0123456789''"
proof (induction n rule: show_nat.induct)
  case (1 n)
  have d: "digit_char k \<in> set ''0123456789''" if "k < 10" for k
  proof -
    from that have "k \<in> {0, 1, 2, 3, 4, 5, 6, 7, 8, 9}" by auto
    then show ?thesis by (auto simp: digit_char_def)
  qed
  show ?case
  proof (cases "n < 10")
    case True
    then show ?thesis using d [of n] by (subst show_nat.simps) simp
  next
    case False
    then show ?thesis
      using "1.IH" d [of "n mod 10"] by (subst show_nat.simps) simp
  qed
qed

lemma index_props_length: "map_of (index_props xs) ''length'' = None"
proof -
  have ne: "show_nat n \<noteq> ''length''" for n
  proof
    assume "show_nat n = ''length''"
    then have "CHR ''l'' \<in> set (show_nat n)" by simp
    then show False using show_nat_digits [of n] by auto
  qed
  have "''length'' \<notin> fst ` set (index_props xs)"
  proof
    assume "''length'' \<in> fst ` set (index_props xs)"
    then obtain v where "(''length'', v) \<in> set (zip (map show_nat [0..<length xs]) xs)"
      by (auto simp: index_props_def)
    then have "''length'' \<in> set (map show_nat [0..<length xs])"
      by (rule set_zip_leftD)
    then obtain n where "show_nat n = ''length''" by auto
    with ne show False by blast
  qed
  then show ?thesis by (simp add: map_of_eq_None_iff)
qed

lemma nonEmptyArray_iff: "isArray v \<and> truthy (getprop v ''length'') \<longleftrightarrow> nonEmptyArray v"
proof (cases v)
  case (JArr xs)
  then show ?thesis by (cases xs) (simp_all add: index_props_length)
qed simp_all

section \<open>Class names\<close>

text \<open>What the expressions of the source accept.\<close>

lemma rmatch_star_whole: "[] \<in> set (rmatch [Star cl] s) \<longleftrightarrow> list_all (in_class cl) s"
  by (induction s) auto

lemma fieldNameIsValid_iff:
  "fieldNameIsValid f \<longleftrightarrow>
     (\<exists>c cs. f = c # cs \<and> in_class alpha c \<and> list_all (in_class word) cs)"
  by (cases f) (simp_all add: fieldNameIsValid_def test_whole_def classAndFieldRegex_def
      rmatch_star_whole)

lemma rmatch_star_prefix:
  "rmatch (Star cl # p) s \<noteq> [] \<longleftrightarrow>
     (\<exists>a r. s = a @ r \<and> list_all (in_class cl) a \<and> rmatch p r \<noteq> [])"
proof (induction s)
  case Nil
  then show ?case by auto
next
  case (Cons x xs)
  show ?case
  proof
    assume "rmatch (Star cl # p) (x # xs) \<noteq> []"
    then consider "rmatch p (x # xs) \<noteq> []"
      | "in_class cl x" "rmatch (Star cl # p) xs \<noteq> []"
      by (auto split: if_splits)
    then show "\<exists>a r. x # xs = a @ r \<and> list_all (in_class cl) a \<and> rmatch p r \<noteq> []"
    proof cases
      case 1
      then have "x # xs = [] @ (x # xs) \<and> list_all (in_class cl) [] \<and> rmatch p (x # xs) \<noteq> []"
        by simp
      then show ?thesis by blast
    next
      case 2
      then obtain a r where "xs = a @ r" "list_all (in_class cl) a" "rmatch p r \<noteq> []"
        using Cons.IH by blast
      with 2 have "x # xs = (x # a) @ r \<and> list_all (in_class cl) (x # a) \<and> rmatch p r \<noteq> []"
        by simp
      then show ?thesis by blast
    qed
  next
    assume "\<exists>a r. x # xs = a @ r \<and> list_all (in_class cl) a \<and> rmatch p r \<noteq> []"
    then obtain a r where ar: "x # xs = a @ r" "list_all (in_class cl) a" "rmatch p r \<noteq> []"
      by blast
    show "rmatch (Star cl # p) (x # xs) \<noteq> []"
    proof (cases a)
      case Nil
      with ar have "rmatch p (x # xs) \<noteq> []" by simp
      then show ?thesis by simp
    next
      case (Cons y ys)
      with ar have "x = y" "xs = ys @ r" "in_class cl x" "list_all (in_class cl) ys" by auto
      with ar(3) Cons.IH show ?thesis by auto
    qed
  qed
qed

lemma rmatch_plus_prefix:
  "rmatch (Plus cl # p) s \<noteq> [] \<longleftrightarrow>
     (\<exists>a r. s = a @ r \<and> a \<noteq> [] \<and> list_all (in_class cl) a \<and> rmatch p r \<noteq> [])"
proof (cases s)
  case Nil
  then show ?thesis by simp
next
  case (Cons x xs)
  show ?thesis
  proof
    assume "rmatch (Plus cl # p) s \<noteq> []"
    with Cons have x: "in_class cl x" and "rmatch (Star cl # p) xs \<noteq> []"
      by (auto split: if_splits)
    then obtain a r where "xs = a @ r" "list_all (in_class cl) a" "rmatch p r \<noteq> []"
      unfolding rmatch_star_prefix by blast
    with x Cons have "s = (x # a) @ r \<and> x # a \<noteq> [] \<and> list_all (in_class cl) (x # a)
        \<and> rmatch p r \<noteq> []"
      by simp
    then show "\<exists>a r. s = a @ r \<and> a \<noteq> [] \<and> list_all (in_class cl) a \<and> rmatch p r \<noteq> []"
      by blast
  next
    assume "\<exists>a r. s = a @ r \<and> a \<noteq> [] \<and> list_all (in_class cl) a \<and> rmatch p r \<noteq> []"
    then obtain a r where ar: "s = a @ r" "a \<noteq> []" "list_all (in_class cl) a" "rmatch p r \<noteq> []"
      by blast
    then obtain y ys where a: "a = y # ys" by (cases a) auto
    with ar Cons have "x = y" "xs = ys @ r" "in_class cl x" "list_all (in_class cl) ys" by auto
    with ar(4) have "rmatch (Star cl # p) xs \<noteq> []"
      unfolding rmatch_star_prefix by blast
    with \<open>in_class cl x\<close> Cons show "rmatch (Plus cl # p) s \<noteq> []" by simp
  qed
qed

lemma rmatch_lit_prefix:
  "rmatch (Lit c # p) s \<noteq> [] \<longleftrightarrow> (\<exists>r. s = c # r \<and> rmatch p r \<noteq> [])"
  by (cases s) auto

lemma rmatch_lits_prefix:
  "rmatch (map Lit w @ p) s \<noteq> [] \<longleftrightarrow> (\<exists>r. s = w @ r \<and> rmatch p r \<noteq> [])"
  by (induction w arbitrary: s) (auto simp: rmatch_lit_prefix)

lemma joinClassRegex_iff:
  "test_prefix joinClassRegex s \<longleftrightarrow>
     (\<exists>f c r. s = ''_Join:'' @ f @ '':'' @ c @ r \<and> f \<noteq> [] \<and> c \<noteq> []
        \<and> list_all (in_class word) f \<and> list_all (in_class word) c)"
proof -
  have "test_prefix joinClassRegex s \<longleftrightarrow>
      (\<exists>r1. s = ''_Join:'' @ r1 \<and>
         (\<exists>f r2. r1 = f @ r2 \<and> f \<noteq> [] \<and> list_all (in_class word) f \<and>
            (\<exists>r3. r2 = CHR '':'' # r3 \<and>
               (\<exists>c r. r3 = c @ r \<and> c \<noteq> [] \<and> list_all (in_class word) c))))"
    unfolding test_prefix_def joinClassRegex_def rmatch_lits_prefix rmatch_plus_prefix
      rmatch_lit_prefix
    by simp
  also have "\<dots> \<longleftrightarrow> (\<exists>f c r. s = ''_Join:'' @ f @ '':'' @ c @ r \<and> f \<noteq> [] \<and> c \<noteq> []
        \<and> list_all (in_class word) f \<and> list_all (in_class word) c)"
  proof
    assume "\<exists>r1. s = ''_Join:'' @ r1 \<and>
         (\<exists>f r2. r1 = f @ r2 \<and> f \<noteq> [] \<and> list_all (in_class word) f \<and>
            (\<exists>r3. r2 = CHR '':'' # r3 \<and>
               (\<exists>c r. r3 = c @ r \<and> c \<noteq> [] \<and> list_all (in_class word) c)))"
    then obtain f c r where "s = ''_Join:'' @ f @ CHR '':'' # c @ r" "f \<noteq> []" "c \<noteq> []"
        "list_all (in_class word) f" "list_all (in_class word) c"
      by blast
    then have "s = ''_Join:'' @ f @ '':'' @ c @ r \<and> f \<noteq> [] \<and> c \<noteq> []
        \<and> list_all (in_class word) f \<and> list_all (in_class word) c"
      by simp
    then show "\<exists>f c r. s = ''_Join:'' @ f @ '':'' @ c @ r \<and> f \<noteq> [] \<and> c \<noteq> []
        \<and> list_all (in_class word) f \<and> list_all (in_class word) c"
      by blast
  next
    assume "\<exists>f c r. s = ''_Join:'' @ f @ '':'' @ c @ r \<and> f \<noteq> [] \<and> c \<noteq> []
        \<and> list_all (in_class word) f \<and> list_all (in_class word) c"
    then obtain f c r where h: "s = ''_Join:'' @ f @ '':'' @ c @ r" "f \<noteq> []" "c \<noteq> []"
        "list_all (in_class word) f" "list_all (in_class word) c"
      by blast
    have "\<exists>c' r'. c @ r = c' @ r' \<and> c' \<noteq> [] \<and> list_all (in_class word) c'"
      using h by blast
    then have "\<exists>r3. CHR '':'' # c @ r = CHR '':'' # r3 \<and>
               (\<exists>c' r'. r3 = c' @ r' \<and> c' \<noteq> [] \<and> list_all (in_class word) c')"
      by blast
    with h have "\<exists>f' r2. f @ CHR '':'' # c @ r = f' @ r2 \<and> f' \<noteq> []
        \<and> list_all (in_class word) f' \<and>
            (\<exists>r3. r2 = CHR '':'' # r3 \<and>
               (\<exists>c r. r3 = c @ r \<and> c \<noteq> [] \<and> list_all (in_class word) c))"
      by blast
    moreover have "s = ''_Join:'' @ (f @ CHR '':'' # c @ r)" using h by simp
    ultimately show "\<exists>r1. s = ''_Join:'' @ r1 \<and>
         (\<exists>f r2. r1 = f @ r2 \<and> f \<noteq> [] \<and> list_all (in_class word) f \<and>
            (\<exists>r3. r2 = CHR '':'' # r3 \<and>
               (\<exists>c r. r3 = c @ r \<and> c \<noteq> [] \<and> list_all (in_class word) c)))"
      by blast
  qed
  finally show ?thesis .
qed

text \<open>
  The join-table name of the specification is the whole-string reading of the source's
  expression; every such name is accepted.
\<close>

lemma word_not_colon: "in_class word c \<Longrightarrow> c \<noteq> CHR '':''"
  by (auto simp: word_def)

lemma spec_join_table_name_iff:
  "spec_join_table_name s \<longleftrightarrow>
     (\<exists>f c. s = ''_Join:'' @ f @ '':'' @ c \<and> f \<noteq> [] \<and> c \<noteq> []
        \<and> list_all (in_class word) f \<and> list_all (in_class word) c)"
proof
  assume a: "spec_join_table_name s"
  define r where "r = drop 6 s"
  define f where "f = takeWhile (\<lambda>c. c \<noteq> CHR '':'') r"
  define c where "c = drop (Suc (length f)) r"
  from a have s: "take 6 s = ''_Join:''" and l: "length f < length r" and ne: "f \<noteq> []" "c \<noteq> []"
    and w: "list_all (in_class word) f" "list_all (in_class word) c"
    unfolding spec_join_table_name_def Let_def r_def f_def c_def by blast+
  have "length f + length (dropWhile (\<lambda>c. c \<noteq> CHR '':'') r) = length r"
    unfolding f_def by (metis length_append takeWhile_dropWhile_id)
  with l have "0 < length (dropWhile (\<lambda>c. c \<noteq> CHR '':'') r)"
    by linarith
  then have d: "dropWhile (\<lambda>c. c \<noteq> CHR '':'') r \<noteq> []"
    using length_greater_0_conv by blast
  define t where "t = tl (dropWhile (\<lambda>c. c \<noteq> CHR '':'') r)"
  from d have "hd (dropWhile (\<lambda>c. c \<noteq> CHR '':'') r) = CHR '':''"
    using hd_dropWhile [of "\<lambda>c. c \<noteq> CHR '':''" r] by simp
  with d have "dropWhile (\<lambda>c. c \<noteq> CHR '':'') r = CHR '':'' # t"
    unfolding t_def by (cases "dropWhile (\<lambda>c. c \<noteq> CHR '':'') r") simp_all
  moreover have "r = f @ dropWhile (\<lambda>c. c \<noteq> CHR '':'') r"
    by (simp add: f_def)
  ultimately have r: "r = f @ CHR '':'' # t"
    by simp
  have "c = drop (Suc (length f)) (f @ CHR '':'' # t)"
    unfolding c_def using r by simp
  then have "c = t" by simp
  with r have "r = f @ '':'' @ c" by simp
  moreover have "s = take 6 s @ drop 6 s" by simp
  ultimately have "s = ''_Join:'' @ f @ '':'' @ c"
    using s by (simp add: r_def)
  with ne w show "\<exists>f c. s = ''_Join:'' @ f @ '':'' @ c \<and> f \<noteq> [] \<and> c \<noteq> []
        \<and> list_all (in_class word) f \<and> list_all (in_class word) c"
    by blast
next
  assume "\<exists>f c. s = ''_Join:'' @ f @ '':'' @ c \<and> f \<noteq> [] \<and> c \<noteq> []
        \<and> list_all (in_class word) f \<and> list_all (in_class word) c"
  then obtain f c where h: "s = ''_Join:'' @ f @ '':'' @ c" "f \<noteq> []" "c \<noteq> []"
      "list_all (in_class word) f" "list_all (in_class word) c"
    by blast
  have "takeWhile (\<lambda>c. c \<noteq> CHR '':'') (f @ '':'' @ c) = f"
    using h(4) by (simp add: takeWhile_append2 list_all_iff word_not_colon takeWhile_eq_all_conv [THEN iffD2])
  with h show "spec_join_table_name s"
    by (simp add: spec_join_table_name_def Let_def)
qed

lemma classNameIsValid_iff:
  "classNameIsValid s \<longleftrightarrow>
     s \<in> set systemClasses
     \<or> (\<exists>f c r. s = ''_Join:'' @ f @ '':'' @ c @ r \<and> f \<noteq> [] \<and> c \<noteq> []
          \<and> list_all (in_class word) f \<and> list_all (in_class word) c)
     \<or> (\<exists>c cs. s = c # cs \<and> in_class alpha c \<and> list_all (in_class word) cs)"
  by (simp only: classNameIsValid_def joinClassRegex_iff fieldNameIsValid_iff)

lemma spec_join_table_name_accepted: "spec_join_table_name s \<Longrightarrow> classNameIsValid s"
proof -
  assume "spec_join_table_name s"
  then obtain f c where "s = ''_Join:'' @ f @ '':'' @ c @ []" "f \<noteq> []" "c \<noteq> []"
      "list_all (in_class word) f" "list_all (in_class word) c"
    unfolding spec_join_table_name_iff by auto
  then show ?thesis unfolding classNameIsValid_iff by blast
qed

lemma classNameIsValid_empty: "\<not> classNameIsValid []"
  by (simp add: classNameIsValid_def fieldNameIsValid_def systemClasses_def regex_defs)

text \<open>
  Claim C7. \<open>classNameIsValid\<close> should be true exactly for the system class names, the
  join-table names \<open>_Join:<field>:<class>\<close> and the names of the field-name pattern. The
  expression for join tables has no \<open>$\<close>, so it accepts every string that begins with a
  join-table name: \<open>_Join:a:b!\<close> is accepted although it is no system class, no join-table
  name and no field name.
\<close>

theorem classNameIsValid_join_unanchored:
  "classNameIsValid ''_Join:a:b!'' \<and> ''_Join:a:b!'' \<notin> set systemClasses
   \<and> \<not> spec_join_table_name ''_Join:a:b!'' \<and> \<not> fieldNameIsValid ''_Join:a:b!''"
  by (simp add: classNameIsValid_def fieldNameIsValid_def systemClasses_def
      spec_join_table_name_def regex_defs)

section \<open>Field type declarations\<close>

text \<open>
  Claim C5, as stated: a declaration with one of the ten scalar tags, \<open>Bytes\<close> and \<open>ACL\<close>
  among them, gets no error. The list of the source has eight tags: \<open>Bytes\<close> and \<open>ACL\<close>
  are refused.
\<close>

theorem fieldTypeIsInvalid_Bytes_ACL:
  "fieldTypeIsInvalid (JStr ''Bytes'') JUndefined = Some (InvalidFieldType ''Bytes'')
   \<and> fieldTypeIsInvalid (JStr ''ACL'') JUndefined = Some (InvalidFieldType ''ACL'')"
  by (simp add: fieldTypeIsInvalid_def validNonRelationOrPointerTypes_def)

text \<open>
  Claim C5, amended: \<open>fieldTypeIsInvalid\<close> returns no error exactly when the tag is one of
  the eight tags Number, String, Boolean, Date, Object, Array, GeoPoint, File, or the tag
  is Pointer or Relation and the target class is a string that is a valid class name.
\<close>

theorem fieldTypeIsInvalid_none_iff:
  "fieldTypeIsInvalid type targetClass = None \<longleftrightarrow>
     type \<in> JStr ` {''Number'', ''String'', ''Boolean'', ''Date'', ''Object'', ''Array'',
                    ''GeoPoint'', ''File''}
     \<or> (type \<in> {JStr ''Pointer'', JStr ''Relation''}
         \<and> (\<exists>c. targetClass = JStr c \<and> classNameIsValid c))"
proof (cases "type = JStr ''Pointer'' \<or> type = JStr ''Relation''")
  case True
  then show ?thesis
    using classNameIsValid_empty
    by (cases targetClass) (auto simp: fieldTypeIsInvalid_def)
next
  case False
  then show ?thesis
    by (cases type) (auto simp: fieldTypeIsInvalid_def validNonRelationOrPointerTypes_def)
qed

section \<open>Classifying a value\<close>

text \<open>
  Claim C9. A tagged object whose own structural test fails is not refused at once: the
  \<open>switch\<close> falls through to the tests of the later tags. A \<open>Pointer\<close> without a class name
  and with a truthy \<open>name\<close> is a \<open>File\<close>; a \<open>File\<close> without a name and with a truthy \<open>iso\<close>
  is a \<open>Date\<close>.
\<close>

theorem getObjectType_falls_through:
  "(getprop (JObj kvs) ''__type'' = JStr ''Pointer'' \<and> \<not> truthy (getprop (JObj kvs) ''className'')
      \<and> truthy (getprop (JObj kvs) ''name'')
    \<longrightarrow> getObjectType (JObj kvs) = Inr (JStr ''File''))
   \<and> (getprop (JObj kvs) ''__type'' = JStr ''File'' \<and> \<not> truthy (getprop (JObj kvs) ''name'')
      \<and> truthy (getprop (JObj kvs) ''iso'')
    \<longrightarrow> getObjectType (JObj kvs) = Inr (JStr ''Date''))"
  by (simp add: typeTagSwitch_def tagPointer_def tagFile_def tagDate_def)

theorem getObjectType_falls_through_witness:
  "getObjectType (JObj [(''__type'', JStr ''Pointer''), (''name'', JStr ''pic.png'')])
     = Inr (JStr ''File'')
   \<and> getObjectType (JObj [(''__type'', JStr ''File''), (''iso'', JStr ''2016-01-01'')])
     = Inr (JStr ''Date'')"
  using getObjectType_falls_through [of "[(''__type'', JStr ''Pointer''), (''name'', JStr ''pic.png'')]"]
    getObjectType_falls_through [of "[(''__type'', JStr ''File''), (''iso'', JStr ''2016-01-01'')]"]
  by simp

section \<open>The two representations of a schema\<close>









text \<open>
  The conversion to the public shape also drops \<open>authData\<close> from the user class, and the
  conversion back does not bring it back: \<open>authData\<close> is not among the fields above.
\<close>

lemma authData_dropped:
  "map_of (schema_fields userAdapter) ''authData'' = Some (ty ''Object'')
   \<and> map_of (schema_fields
        (convertSchemaToAdapterSchema (convertAdapterSchemaToParseSchema userAdapter)))
        ''authData'' = None"
  by code_simp

section \<open>Permissions\<close>

text \<open>An operation that has no entry in the permissions of the class is granted.\<close>

lemma validatePermission_no_entry:
  "\<not> truthy (getprop (getprop (JObj (perms s)) c) operation)
    \<Longrightarrow> validatePermission s c aclGroup operation = Granted"
  by (simp add: validatePermission_def testBaseCLP_def)

text \<open>
  Claim C3. When the base check of the class-level permissions denies an operation,
  \<open>validatePermission\<close> grants \<open>get\<close> and \<open>find\<close> exactly when \<open>readUserFields\<close> is a
  non-empty array, grants \<open>update\<close>, \<open>delete\<close> and \<open>addField\<close> exactly when
  \<open>writeUserFields\<close> is a non-empty array, and throws the operation-forbidden error in
  every other case; \<open>create\<close> is always refused, whatever \<open>writeUserFields\<close> holds.
\<close>

theorem validatePermission_after_base_denial:
  assumes "\<not> testBaseCLP s c aclGroup operation"
  shows "(operation \<in> {''get'', ''find''} \<longrightarrow>
            validatePermission s c aclGroup operation =
              (if nonEmptyArray (getprop (getprop (JObj (perms s)) c) ''readUserFields'')
               then Granted else Denied (OperationForbidden operation c)))
         \<and> (operation \<in> {''update'', ''delete'', ''addField''} \<longrightarrow>
            validatePermission s c aclGroup operation =
              (if nonEmptyArray (getprop (getprop (JObj (perms s)) c) ''writeUserFields'')
               then Granted else Denied (OperationForbidden operation c)))
         \<and> (operation = ''create'' \<longrightarrow>
            validatePermission s c aclGroup operation = Denied (OperationForbidden ''create'' c))
         \<and> err_code (OperationForbidden operation c) = JNum OPERATION_FORBIDDEN"
proof -
  from assms have p: "truthy (getprop (JObj (perms s)) c)"
      "truthy (getprop (getprop (JObj (perms s)) c) operation)"
    by (auto simp: testBaseCLP_def split: if_splits)
  show ?thesis
    using assms p nonEmptyArray_iff [of "getprop (getprop (JObj (perms s)) c) ''readUserFields''"]
      nonEmptyArray_iff [of "getprop (getprop (JObj (perms s)) c) ''writeUserFields''"]
    by (auto simp: validatePermission_def Let_def)
qed

theorem validatePermission_after_base_denial_witness:
  "\<not> testBaseCLP game_state ''Game'' [] ''find''
   \<and> validatePermission game_state ''Game'' [] ''find'' = Granted
   \<and> \<not> testBaseCLP game_state ''Game'' [] ''update''
   \<and> validatePermission game_state ''Game'' [] ''update'' = Granted
   \<and> \<not> testBaseCLP game_state ''Game'' [] ''create''
   \<and> validatePermission game_state ''Game'' [] ''create''
       = Denied (OperationForbidden ''create'' ''Game'')"
proof -
  have f: "\<not> testBaseCLP game_state ''Game'' [] ''find''"
    and u: "\<not> testBaseCLP game_state ''Game'' [] ''update''"
    and c: "\<not> testBaseCLP game_state ''Game'' [] ''create''"
    by (simp_all add: testBaseCLP_def game_state_def game_perms_def)
  have r: "getprop (getprop (JObj (perms game_state)) ''Game'') ''readUserFields''
             = JArr [JStr ''owner'']"
    and w: "getprop (getprop (JObj (perms game_state)) ''Game'') ''writeUserFields''
             = JArr [JStr ''owner'']"
    by (simp_all add: game_state_def game_perms_def)
  have 1: "validatePermission game_state ''Game'' [] ''find'' = Granted"
    using validatePermission_after_base_denial [OF f] unfolding r by simp
  have 2: "validatePermission game_state ''Game'' [] ''update'' = Granted"
    using validatePermission_after_base_denial [OF u] unfolding w by simp
  have 3: "validatePermission game_state ''Game'' [] ''create''
             = Denied (OperationForbidden ''create'' ''Game'')"
    using validatePermission_after_base_denial [OF c] by simp
  from f u c 1 2 3 show ?thesis by (intro conjI)
qed

section \<open>Deleting a field\<close>

lemma default_column_names:
  "list_all (\<lambda>(c, cols). list_all (\<lambda>(k, v). fieldNameIsValid k \<and> truthy v) cols) defaultColumns"
  by (simp add: column_defs fieldNameIsValid_def regex_defs ty_def ty_to_def)

lemma classColumns_entry:
  assumes "(f, v) \<in> set (classColumns c)"
  shows "fieldNameIsValid f \<and> truthy v \<and> map_of defaultColumns c \<noteq> None"
proof (cases "map_of defaultColumns c")
  case None
  with assms show ?thesis by (simp add: classColumns_def)
next
  case (Some cols)
  then have "(c, cols) \<in> set defaultColumns" by (rule map_of_SomeD)
  with default_column_names have "list_all (\<lambda>(k, v). fieldNameIsValid k \<and> truthy v) cols"
    by (auto simp: list_all_iff)
  moreover from assms Some have "(f, v) \<in> set cols" by (simp add: classColumns_def)
  ultimately show ?thesis using Some by (auto simp: list_all_iff)
qed

lemma distinct_classColumns: "distinct (map fst (classColumns c))"
proof (cases "map_of defaultColumns c")
  case None
  then show ?thesis by (simp add: classColumns_def)
next
  case (Some cols)
  then have "cols \<in> snd ` set defaultColumns"
    by (auto dest!: map_of_SomeD intro: rev_image_eqI)
  then show ?thesis
    unfolding classColumns_def Some
    by (auto simp: column_defs)
qed

lemma default_field_rejected:
  assumes "isDefaultField c f"
  shows "fieldNameIsValid f \<and> \<not> fieldNameIsValidForClass f c"
proof (cases "f \<in> set [''objectId'', ''createdAt'', ''updatedAt'', ''ACL'']")
  case True
  then have "fieldNameIsValid f \<and> truthy (getprop (JObj defaultColumns_Default) f)"
    by (auto simp: fieldNameIsValid_def regex_defs defaultColumns_Default_def ty_def)
  then show ?thesis by (simp add: fieldNameIsValidForClass_def)
next
  case False
  with assms have "f \<in> fst ` set (classColumns c)" by (simp add: isDefaultField_def)
  then obtain v where v: "(f, v) \<in> set (classColumns c)" "getprop (JObj (classColumns c)) f = v"
    using getprop_obj_member by blast
  from classColumns_entry [OF v(1)] v(2) show ?thesis
    by (simp add: fieldNameIsValidForClass_def)
qed

text \<open>A string that is no class name is refused before the field is looked at.\<close>

lemma deleteField_invalid_class_name:
  "\<not> classNameIsValid c \<Longrightarrow> deleteField env f c s = (Threw (InvalidClassName c), s)"
  by (simp add: deleteField_def)

text \<open>
  Claim C6. For every class name (a string that \<open>classNameIsValid\<close> accepts) and every
  default field of that class, \<open>deleteField\<close> throws the error with code 136 and the
  message \<open>field ... cannot be changed\<close>. It throws before it returns a promise and before
  any call of the storage adapter or the cache: the controller, the outside world and the
  record of calls are as they were.
\<close>

theorem deleteField_default_field:
  assumes "classNameIsValid c" and "isDefaultField c f"
  shows "deleteField env f c s = (Threw (FieldCannotBeChanged f), s)
         \<and> err_code (FieldCannotBeChanged f) = JNum 136
         \<and> err_message (FieldCannotBeChanged f) = Some (''field '' @ f @ '' cannot be changed'')"
  using assms default_field_rejected [of c f] by (simp add: deleteField_def)

theorem deleteField_default_field_witness:
  "classNameIsValid ''_User'' \<and> isDefaultField ''_User'' ''username''
   \<and> deleteField mem_env ''username'' ''_User'' (fresh_state [userPublic])
       = (Threw (FieldCannotBeChanged ''username''), fresh_state [userPublic])
   \<and> classNameIsValid ''Game'' \<and> isDefaultField ''Game'' ''objectId''
   \<and> deleteField mem_env ''objectId'' ''Game'' (fresh_state [gameAdapter])
       = (Threw (FieldCannotBeChanged ''objectId''), fresh_state [gameAdapter])"
proof -
  have u: "classNameIsValid ''_User''" and g: "classNameIsValid ''Game''"
    by (simp_all add: classNameIsValid_def systemClasses_def fieldNameIsValid_def regex_defs)
  have du: "isDefaultField ''_User'' ''username''"
    and dg: "isDefaultField ''Game'' ''objectId''"
    by (simp_all add: isDefaultField_def classColumns_def column_defs)
  show ?thesis
    using u g du dg
      deleteField_default_field [OF u du, of mem_env "fresh_state [userPublic]"]
      deleteField_default_field [OF g dg, of mem_env "fresh_state [gameAdapter]"]
    by simp
qed

section \<open>Promise chains and collaborator calls\<close>




lemma settle_simps:
  "settle (Resolved v, s) = (Resolved v, s)"
  "settle (Rejected e, s) = (Rejected e, s)"
  "settle (Threw e, s) = (Rejected e, s)"
  "settle (Pending p, s) = (Pending p, s)"
  by (simp_all add: settle_def)

lemma then_do_simps:
  "then_do (Resolved v, s) f = settle (f v s)"
  "then_do (Rejected e, s) f = (Rejected e, s)"
  "then_do (Threw e, s) f = (Threw e, s)"
  "then_do (Pending p, s) f = (Pending p, s)"
  by (simp_all add: then_do_def)

lemma catch_do_simps:
  "catch_do (Resolved v, s) h = (Resolved v, s)"
  "catch_do (Rejected e, s) h = settle (h e s)"
  "catch_do (Threw e, s) h = (Threw e, s)"
  "catch_do (Pending p, s) h = (Pending p, s)"
  by (simp_all add: catch_do_def)

lemma then_or_simps:
  "then_or (Resolved v, s) f h = settle (f v s)"
  "then_or (Rejected e, s) f h = settle (h e s)"
  "then_or (Threw e, s) f h = (Threw e, s)"
  "then_or (Pending p, s) f h = (Pending p, s)"
  by (simp_all add: then_or_def)





section \<open>Reloading\<close>



section \<open>Validation writes the default columns\<close>

lemmas field_eval = validateFields_def validateField_def fieldNameIsValid_def
  fieldNameIsValidForClass_def fieldTypeIsInvalid_decl_def fieldTypeIsInvalid_def
  validNonRelationOrPointerTypes_def classColumns_def column_defs regex_defs ty_def ty_to_def

text \<open>
  Claim C10, as stated: after every call of \<open>validateSchemaData\<close>, also one that reports a
  validation error, \<open>fields\<close> holds the default columns of the class, and the callers of
  \<open>updateClass\<close> see their mapping changed. A call that finds an invalid field name returns
  before it writes: the object is as it was and lacks the default column \<open>username\<close>. And
  \<open>updateClass\<close> validates a merged object it has built: the submitted fields are as they
  were and lack the default column \<open>name\<close>.
\<close>

theorem validateSchemaData_early_return:
  "validateSchemaData_at [badFields] ''_User'' 0 JUndefined []
     = (Returned (InvalidFieldName ''1bad''), [badFields])
   \<and> (''username'', ty ''String'') \<in> set (classColumns ''_User'')
   \<and> map_of badFields ''username'' = None
   \<and> fst (updateClass_validate [[(''objectId'', ty ''String'')], nickFields] ''_Role'' 0 1 JUndefined)
       = Passed
   \<and> snd (updateClass_validate [[(''objectId'', ty ''String'')], nickFields] ''_Role'' 0 1 JUndefined)
        ! 1 = nickFields
   \<and> (''name'', ty ''String'') \<in> set (classColumns ''_Role'')
   \<and> map_of nickFields ''name'' = None"
  by (simp add: validateSchemaData_at_def validateSchemaData_def updateClass_validate_def
      checkSubmittedField_def isDeleteOp_def buildMergedSchemaObject_def sysSchemaField_def
      alloc_def spread_def set_prop_def delete_prop_def geoPointFields_def validateCLP_def
      badFields_def nickFields_def field_eval)

text \<open>
  Claim C10, amended. \<open>validateSchemaData\<close> writes into the object it is given, after
  its loop over the field names: when that loop finds nothing, the object holds every
  default column of the class after the call and is unchanged on every other key, whether
  the call then reports a GeoPoint error, throws on the permissions, or passes; when the
  loop returns an error or throws, the object is as it was. \<open>validateNewClass\<close> passes its
  own argument on, so its caller sees the same change. \<open>updateClass\<close> validates a merged
  object it has built, and the submitted fields of its caller are not changed.
\<close>

theorem validateSchemaData_writes_defaults:
  assumes "r < length h"
  shows "(validateFields c (h ! r) ex = Passed \<longrightarrow>
            (\<forall>(k, v) \<in> set (classColumns c).
                map_of (snd (validateSchemaData_at h c r clp ex) ! r) k = Some v)
            \<and> (\<forall>k. k \<notin> fst ` set (classColumns c) \<longrightarrow>
                   map_of (snd (validateSchemaData_at h c r clp ex) ! r) k = map_of (h ! r) k))
       \<and> (validateFields c (h ! r) ex \<noteq> Passed \<longrightarrow>
            validateSchemaData_at h c r clp ex = (validateFields c (h ! r) ex, h))
       \<and> (\<not> truthy (getprop (JObj (data s)) c) \<and> classNameIsValid c \<longrightarrow>
            validateNewClass_at s h c r clp = validateSchemaData_at h c r clp [])
       \<and> (sub < length h \<and> sub \<noteq> existing \<longrightarrow>
            snd (updateClass_validate h c existing sub clp) ! sub = h ! sub)"
proof (intro conjI impI)
  assume p: "validateFields c (h ! r) ex = Passed"
  have after: "snd (validateSchemaData_at h c r clp ex) ! r = spread (h ! r) (classColumns c)"
    using assms p
    by (simp add: validateSchemaData_at_def validateSchemaData_def Let_def
        split: option.split)
  show "\<forall>(k, v) \<in> set (classColumns c).
          map_of (snd (validateSchemaData_at h c r clp ex) ! r) k = Some v"
    unfolding after using map_of_spread_member [OF distinct_classColumns] by auto
  show "\<forall>k. k \<notin> fst ` set (classColumns c) \<longrightarrow>
          map_of (snd (validateSchemaData_at h c r clp ex) ! r) k = map_of (h ! r) k"
    unfolding after by (simp add: map_of_spread_other)
next
  assume "validateFields c (h ! r) ex \<noteq> Passed"
  then show "validateSchemaData_at h c r clp ex = (validateFields c (h ! r) ex, h)"
    by (cases "validateFields c (h ! r) ex")
      (simp_all add: validateSchemaData_at_def validateSchemaData_def)
next
  assume "\<not> truthy (getprop (JObj (data s)) c) \<and> classNameIsValid c"
  then show "validateNewClass_at s h c r clp = validateSchemaData_at h c r clp []"
    by (simp add: validateNewClass_at_def)
next
  assume a: "sub < length h \<and> sub \<noteq> existing"
  define h1 where "h1 = h[existing := delete_prop ''_wperm'' (delete_prop ''_rperm'' (h ! existing))]"
  have h1: "h1 ! sub = h ! sub" "sub < length h1"
    using a by (simp_all add: h1_def)
  have v: "snd (validateSchemaData_at (h1 @ [m]) c (length h1) clp ns) ! sub = h ! sub" for m ns
    using h1
    by (cases "validateSchemaData c ((h1 @ [m]) ! length h1) clp ns")
      (simp add: validateSchemaData_at_def nth_append)
  show "snd (updateClass_validate h c existing sub clp) ! sub = h ! sub"
  proof (cases "first_error (checkSubmittedField (h ! existing) (h ! sub)) (map fst (h ! sub))")
    case (Some e)
    then show ?thesis by (simp add: updateClass_validate_def)
  next
    case None
    show ?thesis
    proof (cases "buildMergedSchemaObject (h1 ! existing) (h1 ! sub)")
      case (Inl e)
      with None h1 show ?thesis
        by (simp add: updateClass_validate_def h1_def [symmetric])
    next
      case (Inr merged)
      obtain res h3 where vs:
        "validateSchemaData_at (h1 @ [merged]) c (length h1) clp
           (map fst ((h1 @ [merged]) ! existing)) = (res, h3)"
        by (cases "validateSchemaData_at (h1 @ [merged]) c (length h1) clp
           (map fst ((h1 @ [merged]) ! existing))")
      have "h3 ! sub = h ! sub"
        using v [of merged "map fst ((h1 @ [merged]) ! existing)"] vs by simp
      with None Inr vs show ?thesis
        by (cases res) (simp_all add: updateClass_validate_def h1_def [symmetric] alloc_def)
    qed
  qed
qed

theorem validateSchemaData_writes_defaults_witness:
  "0 < length [nickFields]
   \<and> validateFields ''_Role'' ([nickFields] ! 0) [] = Passed
   \<and> map_of (snd (validateSchemaData_at [nickFields] ''_Role'' 0 JUndefined []) ! 0) ''name''
       = Some (ty ''String'')
   \<and> map_of (snd (validateSchemaData_at [nickFields] ''_Role'' 0 JUndefined []) ! 0) ''nick''
       = Some (ty ''String'')
   \<and> validateNewClass_at game_state [nickFields] ''_Role'' 0 JUndefined
       = validateSchemaData_at [nickFields] ''_Role'' 0 JUndefined []
   \<and> validateFields ''_User'' ([badFields] ! 0) [] \<noteq> Passed
   \<and> validateSchemaData_at [badFields] ''_User'' 0 JUndefined []
       = (validateFields ''_User'' ([badFields] ! 0) [], [badFields])
   \<and> snd (updateClass_validate [[(''objectId'', ty ''String'')], nickFields] ''_Role'' 0 1 JUndefined)
        ! 1 = nickFields"
proof -
  have l: "0 < length [nickFields]" "0 < length [badFields]"
      "1 < length [[(''objectId'', ty ''String'')], nickFields] \<and> (1::nat) \<noteq> 0"
    by simp_all
  have p: "validateFields ''_Role'' ([nickFields] ! 0) [] = Passed"
    by (simp add: nickFields_def field_eval)
  have b: "validateFields ''_User'' ([badFields] ! 0) [] \<noteq> Passed"
    by (simp add: badFields_def field_eval)
  have n: "(''name'', ty ''String'') \<in> set (classColumns ''_Role'')"
      "''nick'' \<notin> fst ` set (classColumns ''_Role'')"
    by (simp_all add: classColumns_def column_defs)
  have g: "\<not> truthy (getprop (JObj (data game_state)) ''_Role'') \<and> classNameIsValid ''_Role''"
    by (simp add: game_state_def classNameIsValid_def systemClasses_def)
  note w1 = validateSchemaData_writes_defaults
    [OF l(1), of "''_Role''" "[]" JUndefined game_state 1 0]
  note w2 = validateSchemaData_writes_defaults
    [OF l(2), of "''_User''" "[]" JUndefined game_state 1 0]
  have 1: "map_of (snd (validateSchemaData_at [nickFields] ''_Role'' 0 JUndefined []) ! 0) ''name''
       = Some (ty ''String'')"
    using w1 p n(1) by blast
  have 2: "map_of (snd (validateSchemaData_at [nickFields] ''_Role'' 0 JUndefined []) ! 0) ''nick''
       = Some (ty ''String'')"
    using w1 p n(2) by (simp add: nickFields_def)
  have 3: "validateNewClass_at game_state [nickFields] ''_Role'' 0 JUndefined
       = validateSchemaData_at [nickFields] ''_Role'' 0 JUndefined []"
    using w1 g by blast
  have 4: "validateSchemaData_at [badFields] ''_User'' 0 JUndefined []
       = (validateFields ''_User'' ([badFields] ! 0) [], [badFields])"
    using w2 b by blast
  have 5: "snd (updateClass_validate [[(''objectId'', ty ''String'')], nickFields] ''_Role'' 0 1
             JUndefined) ! 1 = nickFields"
    using validateSchemaData_writes_defaults
      [of 0 "[[(''objectId'', ty ''String'')], nickFields]" "''_Role''" "[]" JUndefined
         game_state 1 0]
    by simp
  from l(1) p 1 2 3 b 4 5 show ?thesis by (intro conjI)
qed

section \<open>Enforcing a field\<close>

lemma fieldNameIsValid_no_dot: "fieldNameIsValid f \<Longrightarrow> \<not> isSubdocumentKey f"
proof -
  assume "fieldNameIsValid f"
  then obtain c cs where f: "f = c # cs" "in_class alpha c" "list_all (in_class word) cs"
    unfolding fieldNameIsValid_iff by blast
  have "\<not> in_class alpha CHR ''.''" "\<not> in_class word CHR ''.''"
    by (simp_all add: alpha_def word_def)
  with f have "CHR ''.'' \<notin> set f"
    by (auto simp: list_all_iff)
  then show ?thesis by (simp add: isSubdocumentKey_def)
qed

lemma strict_eq_refl: "strict_eq v v = isPrimitive v"
  by (cases v) simp_all

lemma truthy_not_nullish: "truthy v \<Longrightarrow> \<not> nullish v"
  by (cases v) simp_all

lemma dbTypeMatchesObjectType_sameType:
  "\<not> nullish dbType \<Longrightarrow> dbTypeMatchesObjectType dbType objectType = Inr (sameType dbType objectType)"
  by (simp add: dbTypeMatchesObjectType_def sameType_def)

lemma sameType_compatible: "sameType a b \<Longrightarrow> compatibleTypes a b"
  by (simp add: sameType_def compatibleTypes_def)

text \<open>
  Claim C4. Let the field \<open>f\<close> of the class \<open>c\<close> have the recorded type \<open>T\<close> in the view
  that \<open>enforceFieldExists\<close> reloads. A call with a type that is not compatible with \<open>T\<close>
  (another tag or, for a Pointer or a Relation, another target class) rejects with the
  type-mismatch error, which carries the expected and the actual type. A call with \<open>T\<close>
  itself resolves. In both cases nothing is done after the reload: no collaborator is
  called and the controller is the reloaded one. The call resolves exactly when tag and
  target class of the two types are equal.
\<close>

theorem enforceFieldExists_recorded_type:
  assumes "fieldNameIsValid f" and "truthy T'"
    and "reloadData env False s = (Resolved (), s1)"
    and "getExpectedType s1 c f = T" and "truthy T"
  shows "(\<not> compatibleTypes T (typeObject T') \<longrightarrow>
            enforceFieldExists env c f T' s =
              (Rejected (SchemaMismatch c f
                 (if truthy (getprop T ''type'') then getprop T ''type'' else T)
                 (getprop (typeObject T') ''type'')), s1))
         \<and> (T' = T \<and> \<not> isString T \<and> isPrimitive (getprop T ''type'')
               \<and> isPrimitive (getprop T ''targetClass'')
             \<longrightarrow> enforceFieldExists env c f T' s = (Resolved (), s1))
         \<and> (fst (enforceFieldExists env c f T' s) = Resolved ()) = sameType T (typeObject T')
         \<and> snd (enforceFieldExists env c f T' s) = s1
         \<and> err_code (SchemaMismatch c f
                    (if truthy (getprop T ''type'') then getprop T ''type'' else T)
                    (getprop (typeObject T') ''type'')) = JNum INCORRECT_TYPE"
proof -
  have m: "dbTypeMatchesObjectType T (typeObject T') = Inr (sameType T (typeObject T'))"
    using assms(5) by (intro dbTypeMatchesObjectType_sameType truthy_not_nullish)
  have main: "enforceFieldExists env c f T' s =
           (if sameType T (typeObject T') then (Resolved (), s1)
            else (Rejected (SchemaMismatch c f
                    (if truthy (getprop T ''type'') then getprop T ''type'' else T)
                    (getprop (typeObject T') ''type'')), s1))"
    using assms fieldNameIsValid_no_dot [OF assms(1)]
    by (simp add: enforceFieldExists_def enforceFieldAfterReload_def then_do_def settle_def
        Let_def m)
  have same: "sameType T (typeObject T)"
    if "\<not> isString T" "isPrimitive (getprop T ''type'')" "isPrimitive (getprop T ''targetClass'')"
    using that by (simp add: sameType_def typeObject_def strict_eq_refl)
  show ?thesis
  proof (intro conjI impI)
    assume "\<not> compatibleTypes T (typeObject T')"
    then have "\<not> sameType T (typeObject T')" using sameType_compatible by blast
    then show "enforceFieldExists env c f T' s =
              (Rejected (SchemaMismatch c f
                 (if truthy (getprop T ''type'') then getprop T ''type'' else T)
                 (getprop (typeObject T') ''type'')), s1)"
      by (simp add: main)
  next
    assume "T' = T \<and> \<not> isString T \<and> isPrimitive (getprop T ''type'')
               \<and> isPrimitive (getprop T ''targetClass'')"
    then have "sameType T (typeObject T')" using same by blast
    then show "enforceFieldExists env c f T' s = (Resolved (), s1)"
      by (simp add: main)
  next
    show "(fst (enforceFieldExists env c f T' s) = Resolved ()) = sameType T (typeObject T')"
      by (simp add: main)
    show "snd (enforceFieldExists env c f T' s) = s1"
      by (simp add: main)
  qed simp
qed


theorem enforceFieldExists_recorded_type_witness:
  "fieldNameIsValid ''score'' \<and> truthy (JStr ''String'')
   \<and> reloadData mem_env False (fresh_state [gameAdapter]) = (Resolved (), game_loaded)
   \<and> getExpectedType game_loaded ''Game'' ''score'' = ty ''Number'' \<and> truthy (ty ''Number'')
   \<and> enforceFieldExists mem_env ''Game'' ''score'' (JStr ''String'') (fresh_state [gameAdapter])
       = (Rejected (SchemaMismatch ''Game'' ''score'' (JStr ''Number'') (JStr ''String'')),
          game_loaded)
   \<and> enforceFieldExists mem_env ''Game'' ''score'' (ty ''Number'') (fresh_state [gameAdapter])
       = (Resolved (), game_loaded)"
proof -
  have f: "fieldNameIsValid ''score''" by code_simp
  have t: "truthy (JStr ''String'')" "truthy (ty ''Number'')" by code_simp+
  have "fst (reloadData mem_env False (fresh_state [gameAdapter])) = Resolved ()"
    by code_simp
  then have r: "reloadData mem_env False (fresh_state [gameAdapter]) = (Resolved (), game_loaded)"
    by (simp add: game_loaded_def prod_eq_iff)
  have e: "getExpectedType game_loaded ''Game'' ''score'' = ty ''Number''"
    by code_simp
  note th1 = enforceFieldExists_recorded_type [OF f t(1) r e t(2)]
  note th2 = enforceFieldExists_recorded_type [OF f t(2) r e t(2)]
  have c: "\<not> compatibleTypes (ty ''Number'') (typeObject (JStr ''String''))"
    by (simp add: compatibleTypes_def typeObject_def ty_def)
  have d: "getprop (typeObject (JStr ''String'')) ''type'' = JStr ''String''"
      "(if truthy (getprop (ty ''Number'') ''type'') then getprop (ty ''Number'') ''type''
        else ty ''Number'') = JStr ''Number''"
    by (simp_all add: typeObject_def ty_def)
  have p: "ty ''Number'' = ty ''Number'' \<and> \<not> isString (ty ''Number'')
      \<and> isPrimitive (getprop (ty ''Number'') ''type'')
      \<and> isPrimitive (getprop (ty ''Number'') ''targetClass'')"
    by (simp add: ty_def)
  have 1: "enforceFieldExists mem_env ''Game'' ''score'' (JStr ''String'') (fresh_state [gameAdapter])
       = (Rejected (SchemaMismatch ''Game'' ''score'' (JStr ''Number'') (JStr ''String'')),
          game_loaded)"
    using th1 [THEN conjunct1] c unfolding d by (rule mp)
  have 2: "enforceFieldExists mem_env ''Game'' ''score'' (ty ''Number'') (fresh_state [gameAdapter])
       = (Resolved (), game_loaded)"
    using th2 [THEN conjunct2, THEN conjunct1] p by (rule mp)
  from f t r e 1 2 show ?thesis by (intro conjI)
qed


section \<open>Validating an object\<close>

lemma errs_in_simps:
  "errs_in E (Resolved v, s) = True"
  "errs_in E (Pending p, s) = True"
  "errs_in E (Rejected e, s) = (e \<in> E)"
  "errs_in E (Threw e, s) = (e \<in> E)"
  by (simp_all add: errs_in_def)

lemma errs_in_settle: "errs_in E r \<Longrightarrow> errs_in E (settle r)"
  by (cases r; cases "fst r") (auto simp: errs_in_def settle_def)

lemma errs_in_then_do:
  "errs_in E r \<Longrightarrow> (\<And>v s. errs_in E (f v s)) \<Longrightarrow> errs_in E (then_do r f)"
  by (cases r; cases "fst r") (auto simp: then_do_simps errs_in_simps intro: errs_in_settle)

lemma errs_in_catch_do:
  "errs_in E r \<Longrightarrow> (\<And>e s. e \<in> E \<Longrightarrow> errs_in E (h e s)) \<Longrightarrow> errs_in E (catch_do r h)"
  by (cases r; cases "fst r") (auto simp: catch_do_simps errs_in_simps intro: errs_in_settle)

lemma errs_in_then_or:
  "errs_in E r \<Longrightarrow> (\<And>v s. errs_in E (f v s)) \<Longrightarrow> (\<And>e s. e \<in> E \<Longrightarrow> errs_in E (h e s))
    \<Longrightarrow> errs_in E (then_or r f h)"
  by (cases r; cases "fst r") (auto simp: then_or_simps errs_in_simps intro: errs_in_settle)

lemma errs_in_call_ext: "range External \<subseteq> E \<Longrightarrow> errs_in E (call_ext c f s)"
  by (cases "f (world s)"; cases "fst (f (world s))") (auto simp: call_ext_def errs_in_simps)

lemma External_other: "range External \<subseteq> otherErrors"
  by (auto simp: otherErrors_def)

lemma other_iff: "e \<in> otherErrors \<longleftrightarrow> e \<noteq> TooManyGeoPoints"
  by (simp add: otherErrors_def)

lemmas errs_intros = errs_in_then_do errs_in_catch_do errs_in_then_or
  errs_in_call_ext [OF External_other]

lemma getAllClasses_other: "errs_in otherErrors (getAllClasses env cc s)"
  unfolding getAllClasses_def
  by (intro errs_intros) (auto simp: errs_in_simps split: option.split list.split intro!: errs_intros)

lemma reloadData_other: "errs_in otherErrors (reloadData env cc s)"
proof -
  have "errs_in otherErrors (reloadFresh env cc t)" for t
    using getAllClasses_other [of env cc "t\<lparr>data := [], perms := []\<rparr>"]
    by (cases "getAllClasses env cc (t\<lparr>data := [], perms := []\<rparr>)";
        cases "fst (getAllClasses env cc (t\<lparr>data := [], perms := []\<rparr>))")
      (auto simp: reloadFresh_def errs_in_simps)
  then show ?thesis
    by (auto simp: reloadData_def Let_def errs_in_simps split: option.split)
qed

lemma validateNewClass_empty:
  "fst (validateNewClass s c [] JUndefined) \<noteq> Thrown TooManyGeoPoints"
  by (simp add: validateNewClass_def validateSchemaData_def validateFields_def validateCLP_def
      Let_def)

lemma addClassIfNotExists_other:
  "errs_in otherErrors (addClassIfNotExists env c [] JUndefined s)"
proof (cases "validateNewClass s c [] JUndefined")
  case (Pair r flds)
  show ?thesis
  proof (cases r)
    case Passed
    with Pair show ?thesis
      unfolding addClassIfNotExists_def
      by (auto simp: Let_def errs_in_simps other_iff intro!: errs_intros)
  next
    case (Returned e)
    with Pair have "e \<noteq> TooManyGeoPoints"
      by (auto simp: validateNewClass_def validateSchemaData_def validateFields_def
          validateCLP_def Let_def split: if_splits)
    with Pair Returned show ?thesis
      by (simp add: addClassIfNotExists_def errs_in_simps other_iff)
  next
    case (Thrown e)
    with Pair validateNewClass_empty [of s c] have "e \<noteq> TooManyGeoPoints" by auto
    with Pair Thrown show ?thesis
      by (simp add: addClassIfNotExists_def errs_in_simps other_iff)
  qed
qed

lemma enforceClassExists_other: "errs_in otherErrors (enforceClassExists env c s)"
  unfolding enforceClassExists_def
  by (auto simp: errs_in_simps other_iff
      intro!: errs_intros addClassIfNotExists_other reloadData_other)

lemma dbTypeMatches_other: "dbTypeMatchesObjectType a b \<noteq> Inl TooManyGeoPoints"
  by (simp add: dbTypeMatchesObjectType_def)

lemma enforceFieldAfterReload_other:
  "errs_in otherErrors (enforceFieldAfterReload env c f t s)"
  unfolding enforceFieldAfterReload_def Let_def
  using dbTypeMatches_other
  by (auto simp: errs_in_simps other_iff split: sum.split bool.split
      intro!: errs_intros reloadData_other)

lemma enforceFieldExists_other: "errs_in otherErrors (enforceFieldExists env c f t s)"
  unfolding enforceFieldExists_def Let_def
  by (auto simp: errs_in_simps other_iff
      intro!: errs_intros reloadData_other enforceFieldAfterReload_other)

lemma enforceFields_other:
  "errs_in otherErrors r \<Longrightarrow> errs_in otherErrors (enforceFields env c steps r)"
proof (induction steps arbitrary: r)
  case Nil
  then show ?case by simp
next
  case (Cons st steps)
  obtain f t where st: "st = (f, t)" by (cases st)
  show ?case
    unfolding st enforceFields.simps
    by (intro Cons.IH errs_in_then_do Cons.prems enforceFieldExists_other)
qed


lemma typeTagSwitch_other: "typeTagSwitch obj \<noteq> Inl TooManyGeoPoints"
  by (simp add: typeTagSwitch_def tagPointer_def tagFile_def tagDate_def tagGeoPoint_def
      tagBytes_def tagDefault_def Let_def)

lemma getObjectType_other: "getObjectType v \<noteq> Inl TooManyGeoPoints"
  by (induction v rule: getObjectType.induct) (auto simp: typeTagSwitch_other)

lemma getType_other: "getType v \<noteq> Inl TooManyGeoPoints"
  by (cases v) (simp_all add: getObjectType_other del: getObjectType.simps)

lemma scanFields_skip: "scanFields ((k, JUndefined) # rest) g steps = scanFields rest g steps"
  by simp

lemma scanFields_throw:
  "v \<noteq> JUndefined \<Longrightarrow> getType v = Inl e \<Longrightarrow>
   scanFields ((k, v) # rest) g steps = (ScanThrew e, steps)"
  by simp

lemma scanFields_step:
  "v \<noteq> JUndefined \<Longrightarrow> getType v = Inr t \<Longrightarrow>
   scanFields ((k, v) # rest) g steps =
     (if (if t = JStr ''GeoPoint'' then Suc g else g) > 1 then (ScanGeo, steps)
      else scanFields rest (if t = JStr ''GeoPoint'' then Suc g else g)
             (if \<not> truthy t \<or> k = ''ACL'' then steps else steps @ [(k, t)]))"
  by (simp add: Let_def)

lemma geoPointCount_Cons:
  "geoPointCount ((k, v) # rest) = (if isGeoPointValue v then Suc (geoPointCount rest)
                                     else geoPointCount rest)"
  by (simp add: geoPointCount_def)

lemma scanFields_threw: "fst (scanFields object g steps) \<noteq> ScanThrew TooManyGeoPoints"
proof (induction object arbitrary: g steps)
  case Nil
  then show ?case by simp
next
  case (Cons kv rest)
  obtain k v where kv: "kv = (k, v)" by (cases kv)
  show ?case
  proof (cases "v = JUndefined")
    case True
    show ?thesis unfolding kv True scanFields_skip by (rule Cons.IH)
  next
    case False
    show ?thesis
    proof (cases "getType v")
      case (Inl e')
      with getType_other [of v] have "e' \<noteq> TooManyGeoPoints" by auto
      then show ?thesis
        unfolding kv scanFields_throw [OF False Inl] by simp
    next
      case (Inr t)
      show ?thesis
        unfolding kv scanFields_step [OF False Inr] using Cons.IH by simp
    qed
  qed
qed

lemma scanFields_few:
  "geoPointCount object + g \<le> 1 \<Longrightarrow> fst (scanFields object g steps) \<noteq> ScanGeo"
proof (induction object arbitrary: g steps)
  case Nil
  then show ?case by simp
next
  case (Cons kv rest)
  obtain k v where kv: "kv = (k, v)" by (cases kv)
  show ?case
  proof (cases "v = JUndefined")
    case True
    with Cons.prems have "geoPointCount rest + g \<le> 1"
      by (simp add: kv geoPointCount_Cons isGeoPointValue_def)
    then show ?thesis
      unfolding kv True scanFields_skip by (rule Cons.IH)
  next
    case False
    show ?thesis
    proof (cases "getType v")
      case (Inl e')
      show ?thesis
        unfolding kv scanFields_throw [OF False Inl] by simp
    next
      case (Inr t)
      have c: "geoPointCount rest + (if t = JStr ''GeoPoint'' then Suc g else g) \<le> 1"
        using Cons.prems False Inr by (auto simp: kv geoPointCount_Cons isGeoPointValue_def)
      then have "\<not> (if t = JStr ''GeoPoint'' then Suc g else g) > 1" by simp
      then show ?thesis
        unfolding kv scanFields_step [OF False Inr] using Cons.IH [OF c] by simp
    qed
  qed
qed

lemma scanFields_many:
  "classifiable object \<Longrightarrow> 2 \<le> geoPointCount object + g \<Longrightarrow> g \<le> 1
    \<Longrightarrow> fst (scanFields object g steps) = ScanGeo"
proof (induction object arbitrary: g steps)
  case Nil
  then show ?case by (simp add: geoPointCount_def)
next
  case (Cons kv rest)
  obtain k v where kv: "kv = (k, v)" by (cases kv)
  from Cons.prems have cl: "classifiable rest" by (simp add: classifiable_def)
  show ?case
  proof (cases "v = JUndefined")
    case True
    with Cons.prems have "2 \<le> geoPointCount rest + g"
      by (simp add: kv geoPointCount_Cons isGeoPointValue_def)
    then show ?thesis
      unfolding kv True scanFields_skip using Cons.prems(3) by (rule Cons.IH [OF cl])
  next
    case False
    show ?thesis
    proof (cases "getType v")
      case (Inl e')
      with False Cons.prems show ?thesis by (simp add: kv classifiable_def)
    next
      case (Inr t)
      have c: "2 \<le> geoPointCount rest + (if t = JStr ''GeoPoint'' then Suc g else g)"
        using Cons.prems False Inr by (auto simp: kv geoPointCount_Cons isGeoPointValue_def)
      show ?thesis
      proof (cases "(if t = JStr ''GeoPoint'' then Suc g else g) > 1")
        case True
        then show ?thesis unfolding kv scanFields_step [OF False Inr] by simp
      next
        case False
        then have "(if t = JStr ''GeoPoint'' then Suc g else g) \<le> 1" by simp
        from Cons.IH [OF cl c this] False show ?thesis
          unfolding kv scanFields_step [OF \<open>v \<noteq> JUndefined\<close> Inr] by simp
      qed
    qed
  qed
qed

lemma enforceFields_Threw: "enforceFields env c steps (Threw e, s) = (Threw e, s)"
  by (induction steps) (auto simp: then_do_simps)

lemma validateObject_geo:
  assumes "fst (scanFields object 0 []) = ScanGeo"
  shows "validateObject env c object q s =
           then_do (enforcedBefore env c object s) (\<lambda>u s1. (Rejected TooManyGeoPoints, s1))"
proof -
  obtain steps where sc: "scanFields object 0 [] = (ScanGeo, steps)"
    using assms by (cases "scanFields object 0 []") simp
  obtain r s0 where ec: "enforceClassExists env c s = (r, s0)"
    by (cases "enforceClassExists env c s")
  show ?thesis
    by (cases r) (simp_all add: validateObject_def enforcedBefore_def sc ec enforceFields_Threw
        then_do_simps)
qed

lemma validateRequiredColumns_other:
  "validateRequiredColumns c object q \<noteq> Rejected TooManyGeoPoints
   \<and> validateRequiredColumns c object q \<noteq> Threw TooManyGeoPoints"
  by (simp add: validateRequiredColumns_def split: option.split list.split)

lemma validateObject_other:
  assumes "fst (scanFields object 0 []) \<noteq> ScanGeo"
  shows "errs_in otherErrors (validateObject env c object q s)"
proof -
  obtain sc steps where sc: "scanFields object 0 [] = (sc, steps)"
    by (cases "scanFields object 0 []")
  obtain r s0 where ec: "enforceClassExists env c s = (r, s0)"
    by (cases "enforceClassExists env c s")
  have e0: "errs_in otherErrors (r, s0)"
    using enforceClassExists_other [of env c s] by (simp add: ec)
  have chain: "errs_in otherErrors (enforceFields env c steps (r, s0))"
    by (rule enforceFields_other [OF e0])
  have req: "errs_in otherErrors (validateRequiredColumns c object q, t)" for t :: "'a state"
    using validateRequiredColumns_other [of c object q]
    by (cases "validateRequiredColumns c object q") (simp_all add: errs_in_simps other_iff)
  show ?thesis
  proof (cases sc)
    case (ScanThrew e)
    with sc scanFields_threw [of object 0 "[]"] have "e \<noteq> TooManyGeoPoints" by auto
    with ScanThrew sc ec e0 show ?thesis
      by (cases r) (simp_all add: validateObject_def errs_in_simps other_iff)
  next
    case ScanGeo
    with assms sc show ?thesis by simp
  next
    case ScanDone
    have "errs_in otherErrors
            (then_do (enforceFields env c steps (r, s0))
               (\<lambda>u s1. (validateRequiredColumns c object q, s1)))"
      by (intro errs_in_then_do chain req)
    with ScanDone sc ec e0 show ?thesis
      by (cases r) (simp_all add: validateObject_def errs_in_simps other_iff then_do_simps)
  qed
qed

text \<open>
  Claim C1, as stated: when the class has one GeoPoint field and the object adds a second
  one, \<open>validateObject\<close> fails with the error of too many GeoPoints. The class \<open>Place\<close> has
  the GeoPoint field \<open>loc\<close>; the object has the one GeoPoint field \<open>loc2\<close>. The call
  resolves, and the class has two GeoPoint fields afterwards.
\<close>

theorem validateObject_second_geopoint_field:
  "getExpectedType place_state ''Place'' ''loc'' = ty ''GeoPoint''
   \<and> getType geo = Inr (JStr ''GeoPoint'')
   \<and> fst (validateObject mem_env ''Place'' [(''loc2'', geo)] JUndefined place_state) = Resolved ()
   \<and> getExpectedType (snd (validateObject mem_env ''Place'' [(''loc2'', geo)] JUndefined place_state))
        ''Place'' ''loc'' = ty ''GeoPoint''
   \<and> getExpectedType (snd (validateObject mem_env ''Place'' [(''loc2'', geo)] JUndefined place_state))
        ''Place'' ''loc2'' = ty ''GeoPoint''"
  by code_simp

text \<open>
  Claim C1, amended. \<open>validateObject\<close> counts the GeoPoint values of the object, not the
  fields of the class. With at most one GeoPoint value in the object it never fails with
  the error of too many GeoPoints, whatever the class holds and whatever the storage
  adapter does. With two or more GeoPoint values, in an object none of whose values makes
  the classification throw, it never resolves: once the class and the fields before the
  second GeoPoint are enforced it rejects with that error (code \<open>INCORRECT_TYPE\<close>), and when
  enforcing them fails it fails the way they did.
\<close>

theorem validateObject_geopoints_of_object:
  "(geoPointCount object \<le> 1 \<longrightarrow>
      fst (validateObject env c object q s) \<noteq> Rejected TooManyGeoPoints
      \<and> fst (validateObject env c object q s) \<noteq> Threw TooManyGeoPoints)
   \<and> (classifiable object \<and> 2 \<le> geoPointCount object \<longrightarrow>
      (\<forall>u. fst (validateObject env c object q s) \<noteq> Resolved u)
      \<and> (fst (enforcedBefore env c object s) = Resolved () \<longrightarrow>
           validateObject env c object q s
             = (Rejected TooManyGeoPoints, snd (enforcedBefore env c object s)))
      \<and> (fst (enforcedBefore env c object s) \<noteq> Resolved () \<longrightarrow>
           validateObject env c object q s = enforcedBefore env c object s))
   \<and> err_code TooManyGeoPoints = JNum INCORRECT_TYPE
   \<and> err_message TooManyGeoPoints = Some ''there can only be one geopoint field in a class''"
proof (intro conjI impI)
  assume "geoPointCount object \<le> 1"
  then have "fst (scanFields object 0 []) \<noteq> ScanGeo"
    using scanFields_few [of object 0 "[]"] by simp
  then have o: "errs_in otherErrors (validateObject env c object q s)"
    by (rule validateObject_other)
  from o show "fst (validateObject env c object q s) \<noteq> Rejected TooManyGeoPoints"
    by (auto simp: errs_in_def other_iff)
  from o show "fst (validateObject env c object q s) \<noteq> Threw TooManyGeoPoints"
    by (auto simp: errs_in_def other_iff)
next
  assume a: "classifiable object \<and> 2 \<le> geoPointCount object"
  then have "fst (scanFields object 0 []) = ScanGeo"
    using scanFields_many [of object 0 "[]"] by simp
  then have v: "validateObject env c object q s =
           then_do (enforcedBefore env c object s) (\<lambda>u s1. (Rejected TooManyGeoPoints, s1))"
    by (rule validateObject_geo)
  obtain r t where eb: "enforcedBefore env c object s = (r, t)"
    by (cases "enforcedBefore env c object s")
  show "\<forall>u. fst (validateObject env c object q s) \<noteq> Resolved u"
    unfolding v eb by (cases r) (simp_all add: then_do_simps settle_simps)
  show "validateObject env c object q s
             = (Rejected TooManyGeoPoints, snd (enforcedBefore env c object s))"
    if "fst (enforcedBefore env c object s) = Resolved ()"
    using that unfolding v eb by (simp add: then_do_simps settle_simps)
  show "validateObject env c object q s = enforcedBefore env c object s"
    if "fst (enforcedBefore env c object s) \<noteq> Resolved ()"
    using that unfolding v eb by (cases r) (simp_all add: then_do_simps settle_simps)
qed simp_all


theorem validateObject_geopoints_of_object_witness:
  "geoPointCount [(''loc2'', geo)] \<le> 1
   \<and> fst (validateObject mem_env ''Place'' [(''loc2'', geo)] JUndefined place_state)
       \<noteq> Rejected TooManyGeoPoints
   \<and> classifiable [(''loc2'', geo), (''loc3'', geo)]
   \<and> 2 \<le> geoPointCount [(''loc2'', geo), (''loc3'', geo)]
   \<and> fst (enforcedBefore mem_env ''Place'' [(''loc2'', geo), (''loc3'', geo)] place_state)
       = Resolved ()
   \<and> validateObject mem_env ''Place'' [(''loc2'', geo), (''loc3'', geo)] JUndefined place_state
       = (Rejected TooManyGeoPoints,
          snd (enforcedBefore mem_env ''Place'' [(''loc2'', geo), (''loc3'', geo)] place_state))"
proof -
  have one: "geoPointCount [(''loc2'', geo)] \<le> 1"
    by code_simp
  have two: "classifiable [(''loc2'', geo), (''loc3'', geo)]
             \<and> 2 \<le> geoPointCount [(''loc2'', geo), (''loc3'', geo)]"
    by code_simp
  have before: "fst (enforcedBefore mem_env ''Place'' [(''loc2'', geo), (''loc3'', geo)] place_state)
       = Resolved ()"
    by code_simp
  note t1 = validateObject_geopoints_of_object
    [of "[(''loc2'', geo)]" mem_env "''Place''" JUndefined place_state]
  note t2 = validateObject_geopoints_of_object
    [of "[(''loc2'', geo), (''loc3'', geo)]" mem_env "''Place''" JUndefined place_state]
  have 1: "fst (validateObject mem_env ''Place'' [(''loc2'', geo)] JUndefined place_state)
       \<noteq> Rejected TooManyGeoPoints"
    using t1 one by blast
  have 2: "validateObject mem_env ''Place'' [(''loc2'', geo), (''loc3'', geo)] JUndefined place_state
       = (Rejected TooManyGeoPoints,
          snd (enforcedBefore mem_env ''Place'' [(''loc2'', geo), (''loc3'', geo)] place_state))"
    using t2 two before by blast
  from one 1 two before 2 show ?thesis by blast
qed

end
